theory Spec2Isabelle
  imports Main "HOL-Library.Word"
begin

section \<open>COMTiles: index geometry, archive writer and archive reader\<close>

text \<open>
  JavaScript numbers are modelled as \<open>int\<close>: every quantity of the index arithmetic is an
  integer far below \<open>2^53\<close>, where the arithmetic of doubles is exact. Bytes of a
  \<open>Buffer\<close>, \<open>Uint8Array\<close> or \<open>ArrayBuffer\<close> are \<open>8 word\<close>. A \<open>throw\<close> is the left
  summand of a result of type \<open>error + 'a\<close>.
\<close>

type_synonym byte = "8 word"

datatype error =
    OutOfRange
  | UnsupportedOrdering
  | UnsupportedCrs
  | UnsupportedVersion
  | UnsupportedTileFormat
  | PyramidTruncated
  | TileTooLarge
  | OffsetOverflow
  | RangeError
  | TypeError
  | SyntaxError
  | HttpError

definition bindE :: "error + 'a \<Rightarrow> ('a \<Rightarrow> error + 'b) \<Rightarrow> error + 'b" where
  "bindE m f = (case m of Inl e \<Rightarrow> Inl e | Inr v \<Rightarrow> f v)"

subsection \<open>Metadata (package \<open>@com-tiles/spec\<close>, as the code uses it)\<close>

record TileMatrixLimits =
  minTileCol :: int
  minTileRow :: int
  maxTileCol :: int
  maxTileRow :: int

record TileMatrix =
  zoom :: int
  aggregationCoefficient :: int
  tileMatrixLimits :: TileMatrixLimits

record TileMatrixSet =
  tileMatrixCRS :: "string option"
  fragmentOrdering :: "string option"
  tileOrdering :: "string option"
  tileMatrix :: "TileMatrix list"

record Metadata =
  tileFormat :: string
  tileMatrixSet :: TileMatrixSet

subsection \<open>\<open>comtIndex.ts\<close>: class \<open>ComtIndex\<close>\<close>

record FragmentRange =
  fragmentIndex :: int
  startOffset :: int
  endOffset :: int

record IndexOffset =
  offset :: int
  index :: int

definition NUM_BYTES_ABSOLUTE_OFFSET :: int where
  "NUM_BYTES_ABSOLUTE_OFFSET = 5"

definition NUM_BYTES_TILE_SIZE :: int where
  "NUM_BYTES_TILE_SIZE = 3"

text \<open>
  \<open>2 ** aggregationCoefficient\<close>. The coefficient of a fragmented zoom is the binary
  logarithm of the fragment's side, a natural number; for a negative coefficient other than
  the marker \<open>-1\<close> JavaScript computes a fraction, which this model does not cover.
\<close>

definition numTilesPerFragmentSide :: "int \<Rightarrow> int" where
  "numTilesPerFragmentSide aggCoeff = 2 ^ nat aggCoeff"

text \<open>\<open>Math.floor(a / b)\<close> and \<open>Math.round(a / b)\<close> for integers \<open>a\<close> and \<open>b > 0\<close>;
  \<open>Math.round\<close> rounds a half upwards.\<close>

definition floorDiv :: "int \<Rightarrow> int \<Rightarrow> int" where
  "floorDiv a b = a div b"

definition roundDiv :: "int \<Rightarrow> int \<Rightarrow> int" where
  "roundDiv a b = (2 * a + b) div (2 * b)"

text \<open>\<open>x || d\<close> on an optional number: \<open>d\<close> when \<open>x\<close> is \<open>undefined\<close> or \<open>0\<close>.\<close>

definition orDefault :: "int option \<Rightarrow> int \<Rightarrow> int" where
  "orDefault x d = (case x of None \<Rightarrow> d | Some v \<Rightarrow> if v = 0 then d else v)"

definition inRange :: "int \<Rightarrow> int \<Rightarrow> TileMatrixLimits \<Rightarrow> bool" where
  "inRange x y tileSetLimits \<longleftrightarrow>
     x \<ge> minTileCol tileSetLimits \<and> x \<le> maxTileCol tileSetLimits \<and>
     y \<ge> minTileRow tileSetLimits \<and> y \<le> maxTileRow tileSetLimits"

definition isPyramidSection :: "int \<Rightarrow> int \<Rightarrow> bool" where
  "isPyramidSection zoomTileSet z \<longleftrightarrow> zoomTileSet < z"

definition calculateBounds ::
  "int \<Rightarrow> TileMatrixLimits \<Rightarrow> int option \<Rightarrow> int option \<Rightarrow> TileMatrixLimits" where
  "calculateBounds aggCoeff limit x y =
     (let n = numTilesPerFragmentSide aggCoeff;
          minTileColFragment = floorDiv (orDefault x (minTileCol limit)) n * n;
          minTileRowFragment = floorDiv (orDefault y (minTileRow limit)) n * n;
          denseLimits = \<lparr> minTileCol = minTileColFragment,
                          minTileRow = minTileRowFragment,
                          maxTileCol = minTileColFragment + n - 1,
                          maxTileRow = minTileRowFragment + n - 1 \<rparr>
      in if x = None \<and> y = None then denseLimits
         else
           (let i1 = (if minTileCol limit > minTileCol denseLimits
                      then denseLimits\<lparr> minTileCol := minTileCol limit \<rparr> else denseLimits);
                i2 = (if minTileRow limit > minTileRow denseLimits
                      then i1\<lparr> minTileRow := minTileRow limit \<rparr> else i1);
                i3 = (if maxTileCol limit < maxTileCol denseLimits
                      then i2\<lparr> maxTileCol := maxTileCol limit \<rparr> else i2);
                i4 = (if maxTileRow limit < maxTileRow denseLimits
                      then i3\<lparr> maxTileRow := maxTileRow limit \<rparr> else i3)
            in i4))"

definition numberOfIndexEntriesBeforeFragment ::
  "TileMatrixLimits \<Rightarrow> TileMatrixLimits \<Rightarrow> int" where
  "numberOfIndexEntriesBeforeFragment sparseFragmentBounds limit =
     (let numTilesLeftBeforeFragment =
            (minTileCol sparseFragmentBounds - minTileCol limit) *
            (maxTileRow sparseFragmentBounds - minTileRow limit + 1);
          numTilesLowBeforeFragment =
            (maxTileCol limit - minTileCol sparseFragmentBounds + 1) *
            (minTileRow sparseFragmentBounds - minTileRow limit)
      in numTilesLeftBeforeFragment + numTilesLowBeforeFragment)"

definition calculateNumberFragmentsPerZoom :: "TileMatrixLimits \<Rightarrow> int \<Rightarrow> int" where
  "calculateNumberFragmentsPerZoom limit aggCoeff =
     (let n = numTilesPerFragmentSide aggCoeff;
          minTileColFragmentIndex = floorDiv (minTileCol limit) n;
          minTileRowFragmentIndex = floorDiv (minTileRow limit) n;
          maxTileColFragmentIndex = floorDiv (maxTileCol limit) n;
          maxTileRowFragmentIndex = floorDiv (maxTileRow limit) n
      in (maxTileColFragmentIndex - minTileColFragmentIndex + 1) *
         (maxTileRowFragmentIndex - minTileRowFragmentIndex + 1))"

definition calculateNumberOfFragmentsBefore ::
  "int \<Rightarrow> int \<Rightarrow> TileMatrixLimits \<Rightarrow> int \<Rightarrow> int" where
  "calculateNumberOfFragmentsBefore x y denseFragmentsBounds aggCoeff =
     (let n = numTilesPerFragmentSide aggCoeff;
          numFragmentsY = floorDiv (y - minTileRow denseFragmentsBounds) n;
          numFragmentsX =
            roundDiv (maxTileCol denseFragmentsBounds - minTileCol denseFragmentsBounds) n;
          numFragmentsActualRow = (numFragmentsX + 1) * (numFragmentsY + 1);
          numFragmentsActualCol = floorDiv (x - minTileCol denseFragmentsBounds) n
      in numFragmentsActualRow + numFragmentsActualCol)"

definition numTilesOfLimit :: "TileMatrixLimits \<Rightarrow> int" where
  "numTilesOfLimit limit =
     (maxTileCol limit - minTileCol limit + 1) * (maxTileRow limit - minTileRow limit + 1)"

text \<open>The body of the \<open>for\<close> loop of \<open>getFragmentRangeForTile\<close>, over the filtered set.\<close>

fun fragmentRangeLoop ::
  "TileMatrix list \<Rightarrow> int \<Rightarrow> int \<Rightarrow> int \<Rightarrow> int \<Rightarrow> int \<Rightarrow> FragmentRange
     \<Rightarrow> error + FragmentRange" where
  "fragmentRangeLoop [] z x y metadataLength pyramidLength acc = Inr acc"
| "fragmentRangeLoop (ts # rest) z x y metadataLength pyramidLength acc =
     (let limit = tileMatrixLimits ts in
      if zoom ts = z \<and> \<not> inRange x y limit then Inl OutOfRange
      else if zoom ts < z then
        (let numTilesPerZoom = numTilesOfLimit limit;
             numFragmentsPerZoom =
               calculateNumberFragmentsPerZoom limit (aggregationCoefficient ts)
         in fragmentRangeLoop rest z x y metadataLength pyramidLength
              (acc\<lparr> fragmentIndex := fragmentIndex acc + numFragmentsPerZoom,
                    startOffset := startOffset acc + (numTilesPerZoom * 3 + numFragmentsPerZoom * 5) \<rparr>))
      else
        (let sparseFragmentBounds =
               calculateBounds (aggregationCoefficient ts) limit (Some x) (Some y);
             numIndexEntriesBeforeFragment =
               numberOfIndexEntriesBeforeFragment sparseFragmentBounds limit;
             numIndexEntriesInFragment =
               (maxTileCol sparseFragmentBounds - minTileCol sparseFragmentBounds + 1) *
               (maxTileRow sparseFragmentBounds - minTileRow sparseFragmentBounds + 1);
             numFragmentsBefore =
               calculateNumberOfFragmentsBefore x y limit (aggregationCoefficient ts) - 1;
             startOffset' = startOffset acc +
               (numFragmentsBefore * 5 + numIndexEntriesBeforeFragment * 3 +
                metadataLength + pyramidLength)
         in fragmentRangeLoop rest z x y metadataLength pyramidLength
              (acc\<lparr> startOffset := startOffset',
                    endOffset := startOffset' + numIndexEntriesInFragment * 3 + 5 \<rparr>)))"

definition getFragmentRangeForTile ::
  "TileMatrix list \<Rightarrow> int \<Rightarrow> int \<Rightarrow> int \<Rightarrow> int \<Rightarrow> int \<Rightarrow> error + FragmentRange" where
  "getFragmentRangeForTile tms z x y metadataLength pyramidLength =
     (let filteredSet = filter (\<lambda>t. aggregationCoefficient t \<noteq> -1 \<and> zoom t \<le> z) tms
      in fragmentRangeLoop filteredSet z x y metadataLength pyramidLength
           \<lparr> fragmentIndex = 0, startOffset = 0, endOffset = 0 \<rparr>)"

definition calculatePyramidIndexOffsetForTile ::
  "TileMatrixLimits \<Rightarrow> int \<Rightarrow> int \<Rightarrow> int \<Rightarrow> int \<Rightarrow> int \<Rightarrow> int" where
  "calculatePyramidIndexOffsetForTile limit aggCoeff x y z off =
     (let numRows = y - minTileRow limit;
          numCols = maxTileCol limit - minTileCol limit + 1;
          deltaCol = x - minTileCol limit
      in off + (numRows * numCols + deltaCol) * NUM_BYTES_TILE_SIZE)"

definition calculateFragmentIndexOffsetForTile ::
  "TileMatrixLimits \<Rightarrow> int \<Rightarrow> int \<Rightarrow> int \<Rightarrow> int \<Rightarrow> int \<Rightarrow> int" where
  "calculateFragmentIndexOffsetForTile limit aggCoeff x y z off =
     (let sparseFragmentBounds = calculateBounds aggCoeff limit (Some x) (Some y);
          numIndexEntriesBeforeFragment =
            numberOfIndexEntriesBeforeFragment sparseFragmentBounds limit;
          fullRows =
            (y - minTileRow sparseFragmentBounds) *
            (maxTileCol sparseFragmentBounds - minTileCol sparseFragmentBounds + 1);
          partialRow = x - minTileCol sparseFragmentBounds;
          numIndexEntries = numIndexEntriesBeforeFragment + fullRows + partialRow
      in off + numIndexEntries * NUM_BYTES_TILE_SIZE)"

text \<open>The callback of \<open>reduce\<close> in \<open>calculateIndexOffsetForTile\<close>, folded from the left.\<close>

fun indexOffsetReduce ::
  "TileMatrix list \<Rightarrow> int \<Rightarrow> int \<Rightarrow> int \<Rightarrow> int \<Rightarrow> error + int" where
  "indexOffsetReduce [] z x y off = Inr off"
| "indexOffsetReduce (ts # rest) z x y off =
     (let limit = tileMatrixLimits ts in
      if zoom ts = z \<and> \<not> inRange x y limit then Inl OutOfRange
      else if isPyramidSection (zoom ts) z then
        indexOffsetReduce rest z x y (off + numTilesOfLimit limit * NUM_BYTES_TILE_SIZE)
      else if aggregationCoefficient ts = -1 then
        indexOffsetReduce rest z x y
          (calculatePyramidIndexOffsetForTile limit (aggregationCoefficient ts) x y z off)
      else
        indexOffsetReduce rest z x y
          (calculateFragmentIndexOffsetForTile limit (aggregationCoefficient ts) x y z off))"

definition calculateIndexOffsetForTile ::
  "TileMatrix list \<Rightarrow> int \<Rightarrow> int \<Rightarrow> int \<Rightarrow> error + IndexOffset" where
  "calculateIndexOffsetForTile tms z x y =
     bindE (indexOffsetReduce (filter (\<lambda>tm. zoom tm \<le> z) tms) z x y 0)
       (\<lambda>off. Inr \<lparr> offset = off, index = off div NUM_BYTES_TILE_SIZE \<rparr>)"


subsection \<open>\<open>utils.ts\<close> of the provider: little-endian decoders over a \<open>DataView\<close>\<close>

text \<open>\<open>DataView.getUint8\<close> and \<open>DataView.getUint32(_, true)\<close>: a read outside the buffer
  throws a \<open>RangeError\<close>.\<close>

definition getUint8 :: "byte list \<Rightarrow> int \<Rightarrow> error + int" where
  "getUint8 buffer byteOffset =
     (if 0 \<le> byteOffset \<and> byteOffset + 1 \<le> int (length buffer)
      then Inr (uint (buffer ! nat byteOffset)) else Inl RangeError)"

definition getUint32LE :: "byte list \<Rightarrow> int \<Rightarrow> error + int" where
  "getUint32LE buffer byteOffset =
     (if 0 \<le> byteOffset \<and> byteOffset + 4 \<le> int (length buffer)
      then Inr (uint (buffer ! nat byteOffset) +
                256 * uint (buffer ! nat (byteOffset + 1)) +
                65536 * uint (buffer ! nat (byteOffset + 2)) +
                16777216 * uint (buffer ! nat (byteOffset + 3)))
      else Inl RangeError)"

definition convertUInt40LEToNumber :: "byte list \<Rightarrow> int \<Rightarrow> error + int" where
  "convertUInt40LEToNumber buffer off =
     bindE (getUint32LE buffer (off + 1)) (\<lambda>hi.
     bindE (getUint8 buffer off) (\<lambda>lo. Inr (hi * 256 + lo)))"

text \<open>\<open>Number.prototype.toString(16)\<close> of a non-negative integer, \<open>String.prototype.slice(-2)\<close>
  and \<open>parseInt(_, 16)\<close>, which reads the longest prefix of hexadecimal digits (the strings
  parsed here consist of six of them).\<close>

definition hexDigit :: "nat \<Rightarrow> char" where
  "hexDigit d = ''0123456789abcdef'' ! d"

fun toString16 :: "nat \<Rightarrow> string" where
  "toString16 n = (if n < 16 then [hexDigit n] else toString16 (n div 16) @ [hexDigit (n mod 16)])"

declare toString16.simps [simp del]

definition sliceLast2 :: "string \<Rightarrow> string" where
  "sliceLast2 s = drop (length s - 2) s"

definition hexValue :: "char \<Rightarrow> int option" where
  "hexValue c = map_of (zip ''0123456789abcdefABCDEF''
                   [0, 1, 2, 3, 4, 5, 6, 7, 8, 9, 10, 11, 12, 13, 14, 15, 10, 11, 12, 13, 14, 15]) c"

fun parseInt16 :: "string \<Rightarrow> int \<Rightarrow> int" where
  "parseInt16 [] acc = acc"
| "parseInt16 (c # cs) acc =
     (case hexValue c of None \<Rightarrow> acc | Some d \<Rightarrow> parseInt16 cs (acc * 16 + d))"

definition convertUInt24LEToNumber :: "byte list \<Rightarrow> int \<Rightarrow> error + int" where
  "convertUInt24LEToNumber buffer off =
     bindE (getUint8 buffer off) (\<lambda>off0.
     bindE (getUint8 buffer (off + 1)) (\<lambda>off1.
     bindE (getUint8 buffer (off + 2)) (\<lambda>off2.
       (let off0S = sliceLast2 (''00'' @ toString16 (nat off0));
            off1S = sliceLast2 (''00'' @ toString16 (nat off1));
            off2S = sliceLast2 (''00'' @ toString16 (nat off2));
            offLE = off2S @ off1S @ off0S
        in Inr (parseInt16 offLE 0)))))"

subsection \<open>\<open>encodeFragmentByteAligned\<close> of the converter\<close>

text \<open>Modelled from the spec: \<open>fragmentSettings\<close> of the provider package is not among the
  sources; the index offset of a fragment is 40 bits, 5 bytes wide (spec 3 and 4.2).\<close>

definition indexOffsetBitWidth :: int where
  "indexOffsetBitWidth = 40"

definition indexOffsetByteWidth :: int where
  "indexOffsetByteWidth = 5"

text \<open>Modelled from the spec: \<open>toBytesLE\<close> of the converter's \<open>utils\<close> is not among the
  sources. It writes \<open>v\<close> as \<open>n\<close> little-endian bytes (spec 4.2); the value must fit, and
  an offset that does not fit aborts the write (\<open>OffsetOverflow\<close>, spec 4.3 and 7).\<close>

definition toBytesLE :: "int \<Rightarrow> nat \<Rightarrow> error + byte list" where
  "toBytesLE v n =
     (if 0 \<le> v \<and> v < 256 ^ n
      then Inr (map (\<lambda>i. word_of_int (v div 256 ^ i)) [0..<n])
      else Inl OffsetOverflow)"

text \<open>\<open>Buffer.alloc(n)\<close>: \<open>n\<close> zero bytes; a negative size throws.\<close>

definition Buffer_alloc :: "int \<Rightarrow> error + byte list" where
  "Buffer_alloc n = (if 0 \<le> n then Inr (replicate (nat n) 0) else Inl RangeError)"

text \<open>\<open>buf.fill(value, start, end)\<close> with a non-empty buffer as value: the bytes of
  \<open>value\<close>, repeated, over the positions \<open>start \<dots> end - 1\<close>.\<close>

definition Buffer_fill :: "byte list \<Rightarrow> byte list \<Rightarrow> nat \<Rightarrow> nat \<Rightarrow> byte list" where
  "Buffer_fill buf val start end' =
     map (\<lambda>i. if start \<le> i \<and> i < end' \<and> val \<noteq> []
                then val ! ((i - start) mod length val) else buf ! i) [0..<length buf]"

text \<open>\<open>buf.writeUint8(value, offset)\<close>: throws unless \<open>0 \<le> value \<le> 255\<close> and the offset is
  inside the buffer.\<close>

definition writeUint8 :: "byte list \<Rightarrow> int \<Rightarrow> int \<Rightarrow> error + byte list" where
  "writeUint8 buf v off =
     (if 0 \<le> v \<and> v \<le> 255 \<and> 0 \<le> off \<and> off < int (length buf)
      then Inr (buf[nat off := word_of_int v]) else Inl RangeError)"

text \<open>The bitwise operators of JavaScript work on the 32-bit two's complement value of
  their operand: \<open>v & 0xff\<close>, and \<open>v >> k\<close>, an arithmetic shift.\<close>

definition toInt32 :: "int \<Rightarrow> int" where
  "toInt32 v = (v + 2147483648) mod 4294967296 - 2147483648"

definition and0xff :: "int \<Rightarrow> int" where
  "and0xff v = toInt32 v mod 256"

definition shiftRight :: "int \<Rightarrow> nat \<Rightarrow> int" where
  "shiftRight v k = toInt32 v div 2 ^ k"

fun encodeTileSizes :: "int list \<Rightarrow> byte list \<Rightarrow> int \<Rightarrow> error + byte list" where
  "encodeTileSizes [] fragmentBuffer fragmentBufferIndex = Inr fragmentBuffer"
| "encodeTileSizes (tileSize # rest) fragmentBuffer fragmentBufferIndex =
     (let firstByte = and0xff tileSize;
          secondByte = and0xff (shiftRight tileSize 8);
          thirdByte = shiftRight tileSize 16
      in bindE (writeUint8 fragmentBuffer firstByte fragmentBufferIndex) (\<lambda>b1.
         bindE (writeUint8 b1 secondByte (fragmentBufferIndex + 1)) (\<lambda>b2.
         bindE (writeUint8 b2 thirdByte (fragmentBufferIndex + 2)) (\<lambda>b3.
           encodeTileSizes rest b3 (fragmentBufferIndex + 3)))))"

definition encodeFragmentByteAligned :: "int \<Rightarrow> int list \<Rightarrow> error + byte list" where
  "encodeFragmentByteAligned absoluteOffset tileSizes =
     (let fragmentBitLength = indexOffsetBitWidth + int (length tileSizes) * 24;
          fragmentByteLength = - ((- fragmentBitLength) div 8)
      in bindE (Buffer_alloc fragmentByteLength) (\<lambda>fragmentBuffer.
         bindE (toBytesLE absoluteOffset (nat indexOffsetByteWidth)) (\<lambda>absoluteOffsetBuffer.
           encodeTileSizes tileSizes
             (Buffer_fill fragmentBuffer absoluteOffsetBuffer 0 (nat indexOffsetByteWidth))
             indexOffsetByteWidth)))"


subsection \<open>The reader: class \<open>IndexCache\<close>\<close>

record IndexEntry =
  entryOffset :: int
  entrySize :: int

text \<open>The fields of \<open>IndexCache\<close>. \<open>LruCache\<close> is not among the sources; the cache of index
  fragments is an association list from the fragment's start offset, the newest entry first,
  so that \<open>put\<close> followed by \<open>get\<close> of the same key returns what was put. Eviction (28
  entries) is not modelled: nothing below depends on it.\<close>

record IndexCache =
  cacheMetadata :: Metadata
  cachePartialIndex :: "byte list"
  cacheIndexOffset :: int
  cachePyramidIndexLength :: int
  cacheFragmentIndexLength :: int
  fragmentedIndex :: "(int \<times> FragmentRange \<times> byte list) list"

definition INDEX_ENTRY_NUM_BYTES :: int where
  "INDEX_ENTRY_NUM_BYTES = 3"

definition FRAGMENT_ENTRY_NUM_BYTES :: int where
  "FRAGMENT_ENTRY_NUM_BYTES = 5"

definition setIndexFragment :: "IndexCache \<Rightarrow> FragmentRange \<Rightarrow> byte list \<Rightarrow> IndexCache" where
  "setIndexFragment cache fragmentRange indexEntries =
     cache\<lparr> fragmentedIndex :=
              (startOffset fragmentRange, fragmentRange, indexEntries) # fragmentedIndex cache \<rparr>"

definition getIndexOffsetFragmentSection :: "int \<Rightarrow> int \<Rightarrow> int" where
  "getIndexOffsetFragmentSection fragIndex indexOffsetForTile =
     fragIndex * FRAGMENT_ENTRY_NUM_BYTES + (indexOffsetForTile - 1) * INDEX_ENTRY_NUM_BYTES"

text \<open>\<open>for (let i = 0; i < indexOffset; i++) offset += convertUInt24LEToNumber(buffer, base + i * 3)\<close>\<close>

function sumEntriesLoop :: "byte list \<Rightarrow> int \<Rightarrow> int \<Rightarrow> int \<Rightarrow> int \<Rightarrow> error + int" where
  "sumEntriesLoop indexBuffer base n i acc =
     (if i < n then
        (case convertUInt24LEToNumber indexBuffer (base + i * INDEX_ENTRY_NUM_BYTES) of
           Inl e \<Rightarrow> Inl e
         | Inr v \<Rightarrow> sumEntriesLoop indexBuffer base n (i + 1) (acc + v))
      else Inr acc)"
  by pat_completeness auto
termination
  by (relation "measure (\<lambda>(indexBuffer, base, n, i, acc). nat (n - i))") auto

declare sumEntriesLoop.simps [simp del]

definition getIndexEntryFragmentSection :: "int \<Rightarrow> byte list \<Rightarrow> error + IndexEntry" where
  "getIndexEntryFragmentSection relOffset indexEntries =
     bindE (convertUInt24LEToNumber indexEntries (relOffset * INDEX_ENTRY_NUM_BYTES + 5)) (\<lambda>sz.
     bindE (convertUInt40LEToNumber indexEntries 0) (\<lambda>base.
     bindE (sumEntriesLoop indexEntries 5 relOffset 0 base) (\<lambda>off.
       Inr \<lparr> entryOffset = off, entrySize = sz \<rparr>)))"

definition getIndexEntryPyramidSection :: "int \<Rightarrow> byte list \<Rightarrow> error + IndexEntry" where
  "getIndexEntryPyramidSection relOffset indexEntries =
     bindE (convertUInt24LEToNumber indexEntries (relOffset * INDEX_ENTRY_NUM_BYTES)) (\<lambda>sz.
     bindE (sumEntriesLoop indexEntries 0 relOffset 0 0) (\<lambda>off.
       Inr \<lparr> entryOffset = off, entrySize = sz \<rparr>))"

text \<open>The test of \<open>IndexCache.get\<close> that sends a request to the pyramid section: the tile's
  ordinal against the byte length of the (still compressed) partial index, and the zoom
  against the constant 8.\<close>

definition readsPyramidSection :: "IndexCache \<Rightarrow> int \<Rightarrow> int \<Rightarrow> bool" where
  "readsPyramidSection cache z idx \<longleftrightarrow>
     idx \<le> int (length (cachePartialIndex cache)) - INDEX_ENTRY_NUM_BYTES \<and> z < 8"

text \<open>\<open>IndexCache.get\<close>; \<open>null\<close> is \<open>None\<close>. \<open>fflate.unzlibSync\<close> belongs to a library and
  is a parameter.\<close>

definition IndexCache_get ::
  "(byte list \<Rightarrow> error + byte list) \<Rightarrow> IndexCache \<Rightarrow> int \<Rightarrow> int \<Rightarrow> int
     \<Rightarrow> error + IndexEntry option" where
  "IndexCache_get unzlibSync cache z x y =
     (let tms = tileMatrix (tileMatrixSet (cacheMetadata cache)) in
      bindE (calculateIndexOffsetForTile tms z x y) (\<lambda>r.
      bindE (getFragmentRangeForTile tms z x y (cacheIndexOffset cache)
               (cachePyramidIndexLength cache)) (\<lambda>fr.
        (let indexOffsetForTile = index r;
             idx = (if z < 8 then indexOffsetForTile
                    else getIndexOffsetFragmentSection (fragmentIndex fr) indexOffsetForTile)
         in if readsPyramidSection cache z idx then
              bindE (unzlibSync (cachePartialIndex cache)) (\<lambda>buf.
              bindE (getIndexEntryPyramidSection idx buf) (\<lambda>e. Inr (Some e)))
            else
              (case map_of (fragmentedIndex cache) (startOffset fr) of
                 None \<Rightarrow> Inr None
               | Some indexFragment \<Rightarrow>
                   (let relativeFragmentOffset = 0 in
                    bindE (getIndexEntryFragmentSection relativeFragmentOffset
                             (snd indexFragment)) (\<lambda>e. Inr (Some e))))))))"

subsection \<open>The reader: class \<open>ComtCache\<close>\<close>

record Header =
  indexOffset :: int
  pyramidIndexLength :: int
  fragmentIndexLength :: int
  dataOffset :: int
  metadata :: Metadata
  partialIndex :: "byte list"

record ComtCache =
  header :: "Header option"
  indexCache :: "IndexCache option"

definition SUPPORTED_VERSION :: int where
  "SUPPORTED_VERSION = 1"

definition INITIAL_CHUNK_SIZE :: int where
  "INITIAL_CHUNK_SIZE = 2 ^ 19"

definition METADATA_OFFSET_INDEX :: int where
  "METADATA_OFFSET_INDEX = 24"

text \<open>\<open>String.prototype.trim\<close> and \<open>toLowerCase\<close>. The strings of the metadata are taken
  to be ASCII: the white space and the letter cases of Unicode beyond ASCII, which JavaScript
  also handles, are not modelled.\<close>

definition isWhiteSpace :: "char \<Rightarrow> bool" where
  "isWhiteSpace c \<longleftrightarrow> (of_char c :: nat) \<in> {9, 10, 11, 12, 13, 32}"

definition trim :: "string \<Rightarrow> string" where
  "trim s = rev (dropWhile isWhiteSpace (rev (dropWhile isWhiteSpace s)))"

definition toLowerCase :: "string \<Rightarrow> string" where
  "toLowerCase s =
     map (\<lambda>c. let n = (of_char c :: nat) in if 65 \<le> n \<and> n \<le> 90 then char_of (n + 32) else c) s"

definition supportedOrdering :: "string option \<Rightarrow> bool" where
  "supportedOrdering ord \<longleftrightarrow> ord = None \<or> ord = Some ''RowMajor''"

definition supportedCrs :: "string option \<Rightarrow> bool" where
  "supportedCrs crs \<longleftrightarrow>
     (case crs of None \<Rightarrow> True
      | Some c \<Rightarrow> toLowerCase (trim c) = toLowerCase ''WebMercatorQuad'')"

text \<open>The constructor of \<open>ComtIndex\<close>: the object is the tile matrix set it was given.\<close>

definition ComtIndex_new :: "Metadata \<Rightarrow> error + TileMatrixSet" where
  "ComtIndex_new md =
     (let tmSet = tileMatrixSet md in
      if \<not> (supportedOrdering (fragmentOrdering tmSet) \<and> supportedOrdering (tileOrdering tmSet))
      then Inl UnsupportedOrdering
      else if \<not> supportedCrs (tileMatrixCRS tmSet) then Inl UnsupportedCrs
      else Inr tmSet)"

definition validateMetadata :: "Metadata \<Rightarrow> int \<Rightarrow> error + unit" where
  "validateMetadata md downloadedPyramidIndexEntries =
     (if tileFormat md \<noteq> ''pbf'' then Inl UnsupportedTileFormat
      else
        (let tmSet = tileMatrixSet md in
         if \<not> (supportedOrdering (fragmentOrdering tmSet) \<and> supportedOrdering (tileOrdering tmSet))
         then Inl UnsupportedOrdering
         else if \<not> supportedCrs (tileMatrixCRS tmSet) then Inl UnsupportedCrs
         else
           (let pyramidIndexEntries =
                  foldl (\<lambda>numIndexEntries tm. numIndexEntries + numTilesOfLimit (tileMatrixLimits tm)) 0
                    (filter (\<lambda>tm. aggregationCoefficient tm = -1) (tileMatrix tmSet))
            in if pyramidIndexEntries > downloadedPyramidIndexEntries
               then Inl PyramidTruncated else Inr ())))"

text \<open>Modelled from the spec: the object store is external (spec 6); a request for
  \<open>bytes=first-last\<close> returns that inclusive range, cut at the end of the file, the whole
  file when the range is malformed, and fails (status 416) when it starts behind the end.\<close>

definition fetchBinaryData :: "byte list \<Rightarrow> int \<Rightarrow> int \<Rightarrow> error + byte list" where
  "fetchBinaryData archive firstBytePos lastBytePos =
     (if firstBytePos < 0 \<or> lastBytePos < firstBytePos then Inr archive
      else if int (length archive) \<le> firstBytePos then Inl HttpError
      else Inr (take (nat (lastBytePos - firstBytePos + 1)) (drop (nat firstBytePos) archive)))"

definition fetchHeader :: "byte list \<Rightarrow> error + byte list" where
  "fetchHeader archive = fetchBinaryData archive 0 (INITIAL_CHUNK_SIZE - 1)"

text \<open>\<open>ArrayBuffer.prototype.slice(begin, end)\<close>.\<close>

definition sliceBuffer :: "byte list \<Rightarrow> int \<Rightarrow> int \<Rightarrow> byte list" where
  "sliceBuffer buffer begin end' =
     (let len = int (length buffer);
          rel = (\<lambda>i. if i < 0 then max (len + i) 0 else min i len)
      in take (nat (rel end' - rel begin)) (drop (nat (rel begin)) buffer))"

text \<open>\<open>loadHeader\<close>. \<open>TextDecoder.decode\<close> followed by \<open>JSON.parse\<close> is the parameter
  \<open>parseMetadata\<close>.\<close>

definition loadHeader ::
  "(byte list \<Rightarrow> error + Metadata) \<Rightarrow> byte list \<Rightarrow> error + Header" where
  "loadHeader parseMetadata archive =
     bindE (fetchHeader archive) (\<lambda>buffer.
     bindE (getUint32LE buffer 4) (\<lambda>version.
       if version \<noteq> SUPPORTED_VERSION then Inl UnsupportedVersion
       else
         bindE (getUint32LE buffer 8) (\<lambda>metadataSize.
         bindE (getUint32LE buffer 12) (\<lambda>pyramidLen.
         bindE (getUint32LE buffer 16) (\<lambda>fragmentLen.
           (let idxOffset = METADATA_OFFSET_INDEX + metadataSize;
                metadataBuffer = sliceBuffer buffer METADATA_OFFSET_INDEX idxOffset
            in bindE (parseMetadata metadataBuffer) (\<lambda>md.
                 (let numCompleteIndexEntries =
                        (INITIAL_CHUNK_SIZE - idxOffset) div INDEX_ENTRY_NUM_BYTES
                  in bindE (validateMetadata md numCompleteIndexEntries) (\<lambda>_.
                       (let endOff = idxOffset + pyramidLen;
                            partial = sliceBuffer buffer idxOffset endOff;
                            dataOff = idxOffset + pyramidLen + fragmentLen
                        in Inr \<lparr> indexOffset = idxOffset,
                                 pyramidIndexLength = pyramidLen,
                                 fragmentIndexLength = fragmentLen,
                                 dataOffset = dataOff,
                                 metadata = md,
                                 partialIndex = partial \<rparr>))))))))))"

definition initIndex :: "Header \<Rightarrow> error + IndexCache" where
  "initIndex h =
     bindE (ComtIndex_new (metadata h)) (\<lambda>_.
       Inr \<lparr> cacheMetadata = metadata h,
             cachePartialIndex = partialIndex h,
             cacheIndexOffset = indexOffset h,
             cachePyramidIndexLength = pyramidIndexLength h,
             cacheFragmentIndexLength = fragmentIndexLength h,
             fragmentedIndex = [] \<rparr>)"

text \<open>\<open>1 << z\<close>: the shift count is taken modulo 32 and the result is a signed 32-bit
  integer.\<close>

definition shiftLeft1 :: "int \<Rightarrow> int" where
  "shiftLeft1 z = toInt32 (2 ^ nat (z mod 32))"

text \<open>\<open>array[z]\<close>: \<open>undefined\<close> outside the array.\<close>

definition arrayGet :: "'a list \<Rightarrow> int \<Rightarrow> 'a option" where
  "arrayGet xs i = (if 0 \<le> i \<and> i < int (length xs) then Some (xs ! nat i) else None)"

text \<open>\<open>fetchIndexEntry\<close>. Requests are served one at a time here, so the map of requests in
  flight (\<open>requestCache\<close>) is empty whenever it is consulted.\<close>

definition fetchIndexEntry ::
  "(byte list \<Rightarrow> error + byte list) \<Rightarrow> byte list \<Rightarrow> Header \<Rightarrow> IndexCache \<Rightarrow> int \<Rightarrow> int \<Rightarrow> int
     \<Rightarrow> error + (IndexEntry option \<times> IndexCache)" where
  "fetchIndexEntry unzlibSync archive h cache z x y =
     bindE (getFragmentRangeForTile (tileMatrix (tileMatrixSet (metadata h))) z x y
              (indexOffset h) (pyramidIndexLength h)) (\<lambda>fragmentRange.
     bindE (fetchBinaryData archive (startOffset fragmentRange) (endOffset fragmentRange))
       (\<lambda>indexFragment.
         (let cache' = setIndexFragment cache fragmentRange indexFragment
          in bindE (IndexCache_get unzlibSync cache' z x y) (\<lambda>e. Inr (e, cache')))))"

text \<open>\<open>getIndexEntry\<close>: \<open>Optional.empty()\<close> is \<open>None\<close>; the result carries the cache after
  the call.\<close>

definition getIndexEntry ::
  "(byte list \<Rightarrow> error + Metadata) \<Rightarrow> (byte list \<Rightarrow> error + byte list) \<Rightarrow> byte list
     \<Rightarrow> ComtCache \<Rightarrow> int \<Rightarrow> int \<Rightarrow> int
     \<Rightarrow> error + ((IndexEntry \<times> int) option \<times> ComtCache)" where
  "getIndexEntry parseMetadata unzlibSync archive this x y z =
     bindE (case header this of
              Some h \<Rightarrow> Inr (h, this)
            | None \<Rightarrow>
                bindE (loadHeader parseMetadata archive) (\<lambda>h.
                bindE (initIndex h) (\<lambda>ic.
                  Inr (h, \<lparr> header = Some h, indexCache = Some ic \<rparr>)))) (\<lambda>(h, this1).
       (let tmsY = shiftLeft1 z - y - 1 in
        case arrayGet (tileMatrix (tileMatrixSet (metadata h))) z of
          None \<Rightarrow> Inl TypeError
        | Some tm \<Rightarrow>
            (let limit = tileMatrixLimits tm in
             if x < minTileCol limit \<or> x > maxTileCol limit \<or>
                tmsY < minTileRow limit \<or> tmsY > maxTileRow limit
             then Inr (None, this1)
             else
               (case indexCache this1 of
                  None \<Rightarrow> Inl TypeError
                | Some ic \<Rightarrow>
                    bindE (IndexCache_get unzlibSync ic z x tmsY) (\<lambda>cached.
                    bindE (case cached of
                             Some e \<Rightarrow> Inr (Some e, ic)
                           | None \<Rightarrow> fetchIndexEntry unzlibSync archive h ic z x tmsY)
                      (\<lambda>(found, ic').
                         case found of
                           None \<Rightarrow> Inl TypeError
                         | Some e \<Rightarrow>
                             Inr (Some (e, dataOffset h + entryOffset e),
                                  this1\<lparr> indexCache := Some ic' \<rparr>)))))))"

text \<open>\<open>fetchMVT\<close> and \<open>getTile\<close> (\<open>fetchTile\<close> with \<open>fetchMVT\<close> as provider);
  \<open>fflate.gunzipSync\<close> is a parameter. The empty list is \<open>new Uint8Array(0)\<close>.\<close>

definition fetchMVT ::
  "(byte list \<Rightarrow> error + byte list) \<Rightarrow> byte list \<Rightarrow> int \<Rightarrow> int \<Rightarrow> error + byte list" where
  "fetchMVT gunzipSync archive tileOffset tileSize =
     bindE (fetchBinaryData archive tileOffset (tileOffset + tileSize - 1)) gunzipSync"

definition getTile ::
  "(byte list \<Rightarrow> error + Metadata) \<Rightarrow> (byte list \<Rightarrow> error + byte list)
     \<Rightarrow> (byte list \<Rightarrow> error + byte list) \<Rightarrow> byte list
     \<Rightarrow> ComtCache \<Rightarrow> int \<Rightarrow> int \<Rightarrow> int \<Rightarrow> error + (byte list \<times> ComtCache)" where
  "getTile parseMetadata unzlibSync gunzipSync archive this x y z =
     bindE (getIndexEntry parseMetadata unzlibSync archive this x y z) (\<lambda>(optionalIndexEntry, this').
       case optionalIndexEntry of
         None \<Rightarrow> Inr ([], this')
       | Some (indexEntry, absoluteTileOffset) \<Rightarrow>
           if entrySize indexEntry \<noteq> 0
           then bindE (fetchMVT gunzipSync archive absoluteTileOffset (entrySize indexEntry))
                  (\<lambda>tile. Inr (tile, this'))
           else Inr ([], this'))"


subsection \<open>The converter: \<open>createComTileArchive\<close>, \<open>writeIndex\<close>, \<open>writeTiles\<close>\<close>

text \<open>A record of the tile stream. \<open>fragmentIndex\<close> is read from the record although the
  interface \<open>TileInfoRecord\<close> does not declare it: it is \<open>undefined\<close> (\<open>None\<close>) when the
  provider does not set it.\<close>

record TileInfoRecord =
  tileZoom :: int
  column :: int
  row :: int
  tileSize :: int
  tileFragmentIndex :: "int option"

definition MAGIC :: string where
  "MAGIC = ''COMT''"

definition VERSION :: int where
  "VERSION = 1"

definition MAX_TILE_SIZE :: int where
  "MAX_TILE_SIZE = 2 ^ 20 - 1"

text \<open>The output stream is the list of the buffers written to it, in order; the file is
  their concatenation.\<close>

type_synonym stream = "byte list list"

definition stringBytes :: "string \<Rightarrow> byte list" where
  "stringBytes s = map (\<lambda>c. of_nat (of_char c)) s"

text \<open>\<open>buf.writeUInt32LE(v)\<close> on \<open>Buffer.alloc(4)\<close> and \<open>buf.writeBigUint64LE(BigInt(v))\<close> on
  \<open>Buffer.alloc(8)\<close>: the value must fit.\<close>

definition writeUInt32LE :: "int \<Rightarrow> error + byte list" where
  "writeUInt32LE v =
     (if 0 \<le> v \<and> v < 2 ^ 32
      then Inr (map (\<lambda>i. word_of_int (v div 256 ^ i)) [0..<4]) else Inl RangeError)"

definition writeBigUint64LE :: "int \<Rightarrow> error + byte list" where
  "writeBigUint64LE v =
     (if 0 \<le> v \<and> v < 2 ^ 64
      then Inr (map (\<lambda>i. word_of_int (v div 256 ^ i)) [0..<8]) else Inl RangeError)"

definition writeHeader :: "stream \<Rightarrow> int \<Rightarrow> error + stream" where
  "writeHeader out metadataByteLength =
     bindE (writeUInt32LE VERSION) (\<lambda>versionBuffer.
     bindE (writeUInt32LE metadataByteLength) (\<lambda>metadataLengthBuffer.
       Inr (out @ [stringBytes MAGIC, versionBuffer, metadataLengthBuffer,
                   replicate 4 0, replicate 8 0])))"

definition writeMetadata :: "stream \<Rightarrow> string \<Rightarrow> stream" where
  "writeMetadata out metadataJson = out @ [stringBytes metadataJson]"

definition validateTileSize :: "int \<Rightarrow> error + unit" where
  "validateTileSize sz = (if sz > MAX_TILE_SIZE then Inl TileTooLarge else Inr ())"

text \<open>Modelled from the spec: \<open>calculateNumTiles\<close> of the converter's \<open>utils\<close> is not among the
  sources; it is the number of tiles of the given tile matrices (spec 3, invariant 2).\<close>

definition calculateNumTiles :: "TileMatrix list \<Rightarrow> int" where
  "calculateNumTiles tms = sum_list (map (\<lambda>tm. numTilesOfLimit (tileMatrixLimits tm)) tms)"

text \<open>\<open>source.copy(target, targetStart)\<close>, cut at the end of the target.\<close>

definition Buffer_copy :: "byte list \<Rightarrow> byte list \<Rightarrow> nat \<Rightarrow> byte list" where
  "Buffer_copy source target targetStart =
     map (\<lambda>i. if targetStart \<le> i \<and> i < targetStart + length source
                then source ! (i - targetStart) else target ! i) [0..<length target]"

text \<open>The first loop of \<open>writeIndex\<close>: \<open>n\<close> more records are taken from the iterator; an
  exhausted iterator yields \<open>undefined\<close>, whose \<open>size\<close> cannot be read.\<close>

fun writePyramidEntries ::
  "nat \<Rightarrow> nat \<Rightarrow> TileInfoRecord list \<Rightarrow> byte list \<Rightarrow> int
     \<Rightarrow> error + (TileInfoRecord list \<times> byte list \<times> int)" where
  "writePyramidEntries 0 i tiles indexPyramidBuffer dataSectionOffset =
     Inr (tiles, indexPyramidBuffer, dataSectionOffset)"
| "writePyramidEntries (Suc n) i tiles indexPyramidBuffer dataSectionOffset =
     (case tiles of
        [] \<Rightarrow> Inl TypeError
      | tileInfo # rest \<Rightarrow>
          (let sz = tileSize tileInfo;
               dataSectionOffset' = dataSectionOffset + sz
           in bindE (validateTileSize sz) (\<lambda>_.
              bindE (toBytesLE sz (nat NUM_BYTES_TILE_SIZE)) (\<lambda>bytes.
                writePyramidEntries n (i + 1) rest
                  (Buffer_copy bytes indexPyramidBuffer (i * nat NUM_BYTES_TILE_SIZE))
                  dataSectionOffset'))))"

text \<open>The variables of the second loop of \<open>writeIndex\<close>.\<close>

record FragmentLoop =
  outStream :: stream
  dataSectionOffset :: int
  previousFragmentIndex :: "int option"
  previousIndex :: int
  indexFragmentLength :: int

text \<open>\<open>a > b\<close> where an operand may be \<open>undefined\<close>: then the comparison is false.\<close>

definition greaterThan :: "int option \<Rightarrow> int option \<Rightarrow> bool" where
  "greaterThan a b = (case (a, b) of (Some u, Some v) \<Rightarrow> u > v | _ \<Rightarrow> False)"

fun writePadding :: "nat \<Rightarrow> FragmentLoop \<Rightarrow> error + FragmentLoop" where
  "writePadding 0 st = Inr st"
| "writePadding (Suc n) st =
     bindE (toBytesLE 0 (nat NUM_BYTES_TILE_SIZE)) (\<lambda>zero.
       writePadding n
         (st\<lparr> outStream := outStream st @ [zero],
              indexFragmentLength := indexFragmentLength st + NUM_BYTES_TILE_SIZE \<rparr>))"

text \<open>The body of the \<open>while\<close> loop, for one record of the tile stream.\<close>

definition writeFragmentEntry ::
  "TileMatrix list \<Rightarrow> FragmentLoop \<Rightarrow> TileInfoRecord \<Rightarrow> error + FragmentLoop" where
  "writeFragmentEntry tms st tile =
     bindE (validateTileSize (tileSize tile)) (\<lambda>_.
     bindE (if greaterThan (tileFragmentIndex tile) (previousFragmentIndex st)
            then bindE (toBytesLE (dataSectionOffset st) (nat NUM_BYTES_ABSOLUTE_OFFSET))
                   (\<lambda>absoluteFragmentOffset.
                      Inr (st\<lparr> outStream := outStream st @ [absoluteFragmentOffset],
                               indexFragmentLength :=
                                 indexFragmentLength st + NUM_BYTES_ABSOLUTE_OFFSET \<rparr>))
            else Inr st) (\<lambda>st1.
     bindE (calculateIndexOffsetForTile tms (tileZoom tile) (column tile) (row tile)) (\<lambda>r.
       (let currentIndex = index r;
            padding = currentIndex - previousIndex st1 - 1
        in bindE (if padding > 0 then writePadding (nat padding) st1 else Inr st1) (\<lambda>st2.
           bindE (toBytesLE (tileSize tile) (nat NUM_BYTES_TILE_SIZE)) (\<lambda>indexEntry.
             Inr (st2\<lparr> outStream := outStream st2 @ [indexEntry],
                      indexFragmentLength := indexFragmentLength st2 + NUM_BYTES_TILE_SIZE,
                      dataSectionOffset := dataSectionOffset st2 + tileSize tile,
                      previousFragmentIndex := tileFragmentIndex tile,
                      previousIndex := currentIndex \<rparr>)))))))"

fun writeFragmentEntries ::
  "TileMatrix list \<Rightarrow> FragmentLoop \<Rightarrow> TileInfoRecord list \<Rightarrow> error + FragmentLoop" where
  "writeFragmentEntries tms st [] = Inr st"
| "writeFragmentEntries tms st (tile # rest) =
     bindE (writeFragmentEntry tms st tile) (\<lambda>st'. writeFragmentEntries tms st' rest)"

text \<open>\<open>writeIndex\<close>. \<open>fflate.zlibSync\<close> belongs to a library and is a parameter. The result
  is the stream after the call and the pair of lengths the function returns.\<close>

definition writeIndex ::
  "(byte list \<Rightarrow> byte list) \<Rightarrow> stream \<Rightarrow> TileInfoRecord list \<Rightarrow> Metadata \<Rightarrow> int
     \<Rightarrow> error + (stream \<times> int \<times> int)" where
  "writeIndex zlibSync out tiles md pyramidMaxZoom =
     bindE (ComtIndex_new md) (\<lambda>comtIndex.
       (let pyramidSet = filter (\<lambda>set. zoom set \<le> pyramidMaxZoom) (tileMatrix (tileMatrixSet md));
            numIndexEntriesPyramid = calculateNumTiles pyramidSet
        in bindE (Buffer_alloc (numIndexEntriesPyramid * NUM_BYTES_TILE_SIZE)) (\<lambda>indexPyramidBuffer.
           bindE (writePyramidEntries (nat numIndexEntriesPyramid) 0 tiles indexPyramidBuffer 0)
             (\<lambda>(rest, pyramidBuffer, offsetAfterPyramid).
               (let compressedIndexPyramid = zlibSync pyramidBuffer
                in bindE (writeFragmentEntries (tileMatrix comtIndex)
                            \<lparr> outStream = out @ [compressedIndexPyramid],
                              dataSectionOffset = offsetAfterPyramid,
                              previousFragmentIndex = Some (-1),
                              previousIndex = int (length compressedIndexPyramid),
                              indexFragmentLength = 0 \<rparr> rest) (\<lambda>st.
                     Inr (outStream st,
                          int (length compressedIndexPyramid), indexFragmentLength st)))))))"

definition writeTiles :: "stream \<Rightarrow> byte list list \<Rightarrow> stream" where
  "writeTiles out tiles = out @ filter (\<lambda>tile. length tile > 0) tiles"

text \<open>\<open>fs.writeSync(fd, buffer, 0, buffer.length, position)\<close> on the finished file.\<close>

definition writeAt :: "byte list \<Rightarrow> byte list \<Rightarrow> nat \<Rightarrow> byte list" where
  "writeAt file buffer position =
     take position (file @ replicate (position - length file) 0) @ buffer @
     drop (position + length buffer) file"

text \<open>\<open>createComTileArchive\<close>, from the metadata on: the metadata, its JSON text (ASCII), the
  size records and the payloads of the tile provider are given. The result is the file.\<close>

definition createComTileArchive ::
  "(byte list \<Rightarrow> byte list) \<Rightarrow> Metadata \<Rightarrow> string \<Rightarrow> TileInfoRecord list \<Rightarrow> byte list list
     \<Rightarrow> int \<Rightarrow> error + byte list" where
  "createComTileArchive zlibSync md metadataJson sizeRecords tileRecords pyramidMaxZoom =
     bindE (writeHeader [] (int (length metadataJson))) (\<lambda>s1.
       (let s2 = writeMetadata s1 metadataJson
        in bindE (writeIndex zlibSync s2 sizeRecords md pyramidMaxZoom) (\<lambda>(s3, indexStats).
             (let s4 = writeTiles s3 tileRecords
              in bindE (writeUInt32LE (fst indexStats)) (\<lambda>pyramidBuffer.
                 bindE (writeBigUint64LE (snd indexStats)) (\<lambda>fragmentBuffer.
                   Inr (writeAt (writeAt (concat s4) pyramidBuffer 12) fragmentBuffer 16)))))))"

subsection \<open>The statements of the specification, for comparison with the code\<close>

text \<open>The sparse fragment bounds as the specification words them: the dense cell of side
  \<open>F = 2^coeff\<close> that contains \<open>(x, y)\<close>, intersected with the limits of the zoom.\<close>

definition sparseFragmentBoundsSpec ::
  "int \<Rightarrow> TileMatrixLimits \<Rightarrow> int \<Rightarrow> int \<Rightarrow> TileMatrixLimits" where
  "sparseFragmentBoundsSpec aggCoeff limit x y =
     (let F = 2 ^ nat aggCoeff; fc = x div F; fr = y div F
      in \<lparr> minTileCol = max (fc * F) (minTileCol limit),
           minTileRow = max (fr * F) (minTileRow limit),
           maxTileCol = min (fc * F + F - 1) (maxTileCol limit),
           maxTileRow = min (fr * F + F - 1) (maxTileRow limit) \<rparr>)"

text \<open>The ordinal of a tile inside its own zoom, as the specification words it.\<close>

definition entryAtZoomSpec :: "TileMatrix \<Rightarrow> int \<Rightarrow> int \<Rightarrow> int" where
  "entryAtZoomSpec tm x y =
     (let limit = tileMatrixLimits tm in
      if aggregationCoefficient tm = -1 then
        (y - minTileRow limit) * (maxTileCol limit - minTileCol limit + 1) + (x - minTileCol limit)
      else
        (let sfb = sparseFragmentBoundsSpec (aggregationCoefficient tm) limit x y;
             entriesBeforeFragment = numberOfIndexEntriesBeforeFragment sfb limit;
             fullRowsInFragment = y - minTileRow sfb;
             fragmentWidth = maxTileCol sfb - minTileCol sfb + 1;
             partialRow = x - minTileCol sfb
         in entriesBeforeFragment + fullRowsInFragment * fragmentWidth + partialRow))"

text \<open>The number of tiles of all zooms below \<open>z\<close>.\<close>

definition tilesBelowZoomSpec :: "TileMatrix list \<Rightarrow> int \<Rightarrow> int" where
  "tilesBelowZoomSpec tms z =
     sum_list (map (\<lambda>t. numTilesOfLimit (tileMatrixLimits t)) (filter (\<lambda>t. zoom t < z) tms))"

text \<open>What one tile matrix adds to the offset in \<open>calculateIndexOffsetForTile\<close>.\<close>

definition contribution :: "int \<Rightarrow> int \<Rightarrow> int \<Rightarrow> TileMatrix \<Rightarrow> int" where
  "contribution z x y t =
     (if zoom t < z then numTilesOfLimit (tileMatrixLimits t) * 3
      else if aggregationCoefficient t = -1
        then calculatePyramidIndexOffsetForTile (tileMatrixLimits t) (aggregationCoefficient t) x y z 0
        else calculateFragmentIndexOffsetForTile (tileMatrixLimits t) (aggregationCoefficient t) x y z 0)"

text \<open>The number of fragments before the fragment of \<open>(x, y)\<close>, as the specification words
  it: the fragment cells in the rows below, plus those to the left in the same row.\<close>

definition numFragmentsBeforeSpec :: "int \<Rightarrow> int \<Rightarrow> TileMatrixLimits \<Rightarrow> int \<Rightarrow> int" where
  "numFragmentsBeforeSpec x y limit aggCoeff =
     (let F = 2 ^ nat aggCoeff;
          fragmentsPerRow = maxTileCol limit div F - minTileCol limit div F + 1;
          rowsBelow = y div F - minTileRow limit div F;
          leftInRow = x div F - minTileCol limit div F
      in rowsBelow * fragmentsPerRow + leftInRow)"

text \<open>The bytes of a tile size and of a fragment offset, little-endian.\<close>

definition sizeBytes :: "int \<Rightarrow> byte list" where
  "sizeBytes s = [word_of_int (s mod 256), word_of_int (s div 256 mod 256), word_of_int (s div 65536)]"

definition offsetBytes :: "int \<Rightarrow> byte list" where
  "offsetBytes v = map (\<lambda>i. word_of_int (v div 256 ^ i)) [0..<5]"

subsection \<open>Concrete inputs\<close>

text \<open>Scenario (c) of the specification, with a pyramid zoom below: zoom 3 with all 64 tiles
  and zoom 4 with the limits \<open>{3, 2, 13, 11}\<close> in fragments of side 8.\<close>

definition scenarioCZoom3 :: TileMatrix where
  "scenarioCZoom3 =
     \<lparr> zoom = 3, aggregationCoefficient = -1,
       tileMatrixLimits = \<lparr> minTileCol = 0, minTileRow = 0, maxTileCol = 7, maxTileRow = 7 \<rparr> \<rparr>"

definition scenarioCZoom4 :: TileMatrix where
  "scenarioCZoom4 =
     \<lparr> zoom = 4, aggregationCoefficient = 3,
       tileMatrixLimits = \<lparr> minTileCol = 3, minTileRow = 2, maxTileCol = 13, maxTileRow = 11 \<rparr> \<rparr>"

definition scenarioC :: "TileMatrix list" where
  "scenarioC = [scenarioCZoom3, scenarioCZoom4]"

definition scenarioCLimits :: TileMatrixLimits where
  "scenarioCLimits = \<lparr> minTileCol = 3, minTileRow = 2, maxTileCol = 13, maxTileRow = 11 \<rparr>"

text \<open>For concrete archives the pyramid is compressed as a zlib stream with one stored
  block (RFC 1950, RFC 1951 section 3.2.4): two header bytes, the block header with the
  length and its complement, the bytes themselves and their Adler-32 checksum. It stands for
  the output of \<open>fflate.zlibSync\<close>, which every zlib decoder must accept; \<open>unzlibStored\<close>
  decodes such a stream.\<close>

definition adler32 :: "byte list \<Rightarrow> int" where
  "adler32 bytes =
     (let (a, b) = foldl (\<lambda>(a, b) d. let a' = (a + uint d) mod 65521 in (a', (b + a') mod 65521))
                     (1, 0) bytes
      in b * 65536 + a)"

definition zlibStored :: "byte list \<Rightarrow> byte list" where
  "zlibStored bytes =
     (let len = int (length bytes); nlen = 65535 - len; chk = adler32 bytes
      in [120, 1, 1, word_of_int len, word_of_int (len div 256),
          word_of_int nlen, word_of_int (nlen div 256)] @ bytes @
         [word_of_int (chk div 16777216), word_of_int (chk div 65536),
          word_of_int (chk div 256), word_of_int chk])"

definition unzlibStored :: "byte list \<Rightarrow> error + byte list" where
  "unzlibStored bytes =
     (if length bytes < 11 then Inl SyntaxError
      else
        (let len = uint (bytes ! 3) + 256 * uint (bytes ! 4);
             body = take (nat len) (drop 7 bytes)
         in if int (length bytes) = len + 11 \<and> zlibStored body = bytes
            then Inr body else Inl SyntaxError))"

text \<open>A small archive, as the converter writes it with \<open>--pyramidMaxZoom 1\<close>: zooms 0 and 1
  in the pyramid, zoom 2 in fragments of side 64. The database holds all five tiles of the
  pyramid and, at zoom 2, only the tile in column 2 of row 1.\<close>

definition smallZoom0 :: TileMatrix where
  "smallZoom0 =
     \<lparr> zoom = 0, aggregationCoefficient = -1,
       tileMatrixLimits = \<lparr> minTileCol = 0, minTileRow = 0, maxTileCol = 0, maxTileRow = 0 \<rparr> \<rparr>"

definition smallZoom1 :: TileMatrix where
  "smallZoom1 =
     \<lparr> zoom = 1, aggregationCoefficient = -1,
       tileMatrixLimits = \<lparr> minTileCol = 0, minTileRow = 0, maxTileCol = 1, maxTileRow = 1 \<rparr> \<rparr>"

definition smallZoom2 :: TileMatrix where
  "smallZoom2 =
     \<lparr> zoom = 2, aggregationCoefficient = 6,
       tileMatrixLimits = \<lparr> minTileCol = 0, minTileRow = 0, maxTileCol = 3, maxTileRow = 3 \<rparr> \<rparr>"

definition smallMatrices :: "TileMatrix list" where
  "smallMatrices = [smallZoom0, smallZoom1, smallZoom2]"

definition smallMetadata :: Metadata where
  "smallMetadata =
     \<lparr> tileFormat = ''pbf'',
       tileMatrixSet =
         \<lparr> tileMatrixCRS = Some ''WebMercatorQuad'',
           fragmentOrdering = Some ''RowMajor'',
           tileOrdering = Some ''RowMajor'',
           tileMatrix = smallMatrices \<rparr> \<rparr>"

definition smallSizeRecords :: "TileInfoRecord list" where
  "smallSizeRecords =
     [\<lparr> tileZoom = 0, column = 0, row = 0, tileSize = 5, tileFragmentIndex = None \<rparr>,
      \<lparr> tileZoom = 1, column = 0, row = 0, tileSize = 1, tileFragmentIndex = None \<rparr>,
      \<lparr> tileZoom = 1, column = 1, row = 0, tileSize = 2, tileFragmentIndex = None \<rparr>,
      \<lparr> tileZoom = 1, column = 0, row = 1, tileSize = 3, tileFragmentIndex = None \<rparr>,
      \<lparr> tileZoom = 1, column = 1, row = 1, tileSize = 4, tileFragmentIndex = None \<rparr>,
      \<lparr> tileZoom = 2, column = 2, row = 1, tileSize = 9, tileFragmentIndex = Some 0 \<rparr>]"

definition smallTileRecords :: "byte list list" where
  "smallTileRecords =
     [replicate 5 10, replicate 1 11, replicate 2 12, replicate 3 13, replicate 4 14,
      replicate 9 15]"

text \<open>The JSON text of the metadata is abbreviated; \<open>smallParse\<close> stands for \<open>JSON.parse\<close>
  on it.\<close>

definition smallJson :: string where
  "smallJson = ''{}''"

definition smallParse :: "byte list \<Rightarrow> error + Metadata" where
  "smallParse bytes =
     (if bytes = stringBytes smallJson then Inr smallMetadata else Inl SyntaxError)"

definition smallPartialIndex :: "byte list" where
  "smallPartialIndex =
     [120, 1, 1, 15, 0, 240, 255, 5, 0, 0, 1, 0, 0, 2, 0, 0, 3, 0, 0, 4, 0, 0, 0, 150, 0, 16]"

definition smallArchive :: "byte list" where
  "smallArchive =
     [67, 79, 77, 84, 1, 0, 0, 0, 2, 0, 0, 0, 26, 0, 0, 0, 8, 0, 0, 0, 0, 0, 0, 0, 123, 125] @
     smallPartialIndex @
     [15, 0, 0, 0, 0, 9, 0, 0] @
     [10, 10, 10, 10, 10, 11, 12, 12, 13, 13, 13, 14, 14, 14, 14,
      15, 15, 15, 15, 15, 15, 15, 15, 15]"

definition smallHeader :: Header where
  "smallHeader =
     \<lparr> indexOffset = 26, pyramidIndexLength = 26, fragmentIndexLength = 8, dataOffset = 60,
       metadata = smallMetadata, partialIndex = smallPartialIndex \<rparr>"

definition smallCache :: IndexCache where
  "smallCache =
     \<lparr> cacheMetadata = smallMetadata,
       cachePartialIndex = smallPartialIndex,
       cacheIndexOffset = 26,
       cachePyramidIndexLength = 26,
       cacheFragmentIndexLength = 8,
       fragmentedIndex = [] \<rparr>"

definition smallHeaderStream :: stream where
  "smallHeaderStream =
     [[67, 79, 77, 84], [1, 0, 0, 0], [2, 0, 0, 0], [0, 0, 0, 0], [0, 0, 0, 0, 0, 0, 0, 0]]"

definition smallPyramidBuffer :: "byte list" where
  "smallPyramidBuffer = [5, 0, 0, 1, 0, 0, 2, 0, 0, 3, 0, 0, 4, 0, 0]"

definition smallFragmentTile :: TileInfoRecord where
  "smallFragmentTile =
     \<lparr> tileZoom = 2, column = 2, row = 1, tileSize = 9, tileFragmentIndex = Some 0 \<rparr>"

text \<open>The small archive with the version 2, and with the magic \<open>XXXX\<close>.\<close>

definition smallArchiveVersion2 :: "byte list" where
  "smallArchiveVersion2 = take 4 smallArchive @ [2, 0, 0, 0] @ drop 8 smallArchive"

definition smallArchiveBadMagic :: "byte list" where
  "smallArchiveBadMagic = stringBytes ''XXXX'' @ drop 4 smallArchive"

text \<open>An archive as the converter writes it with its default \<open>pyramidMaxZoom = 7\<close>: zooms 0
  to 7 in the pyramid, each with the one tile \<open>(0, 0)\<close> of 1 byte, and zoom 8 in fragments
  of side 64 with the tiles \<open>(0, 0)\<close> of 10 bytes and \<open>(1, 0)\<close> of 20 bytes, both in fragment
  0.\<close>

definition pyramidMatrix :: "int \<Rightarrow> TileMatrix" where
  "pyramidMatrix z =
     \<lparr> zoom = z, aggregationCoefficient = -1,
       tileMatrixLimits = \<lparr> minTileCol = 0, minTileRow = 0, maxTileCol = 0, maxTileRow = 0 \<rparr> \<rparr>"

definition defaultZoom8 :: TileMatrix where
  "defaultZoom8 =
     \<lparr> zoom = 8, aggregationCoefficient = 6,
       tileMatrixLimits = \<lparr> minTileCol = 0, minTileRow = 0, maxTileCol = 1, maxTileRow = 0 \<rparr> \<rparr>"

definition defaultMatrices :: "TileMatrix list" where
  "defaultMatrices = map pyramidMatrix [0, 1, 2, 3, 4, 5, 6, 7] @ [defaultZoom8]"

definition defaultMetadata :: Metadata where
  "defaultMetadata =
     \<lparr> tileFormat = ''pbf'',
       tileMatrixSet =
         \<lparr> tileMatrixCRS = Some ''WebMercatorQuad'',
           fragmentOrdering = Some ''RowMajor'',
           tileOrdering = Some ''RowMajor'',
           tileMatrix = defaultMatrices \<rparr> \<rparr>"

definition defaultFirstTile :: TileInfoRecord where
  "defaultFirstTile =
     \<lparr> tileZoom = 8, column = 0, row = 0, tileSize = 10, tileFragmentIndex = Some 0 \<rparr>"

definition defaultSecondTile :: TileInfoRecord where
  "defaultSecondTile =
     \<lparr> tileZoom = 8, column = 1, row = 0, tileSize = 20, tileFragmentIndex = Some 0 \<rparr>"

definition defaultSizeRecords :: "TileInfoRecord list" where
  "defaultSizeRecords =
     map (\<lambda>z. \<lparr> tileZoom = z, column = 0, row = 0, tileSize = 1, tileFragmentIndex = None \<rparr>)
       [0, 1, 2, 3, 4, 5, 6, 7] @ [defaultFirstTile, defaultSecondTile]"

definition defaultFirstPayload :: "byte list" where
  "defaultFirstPayload = replicate 10 1"

definition defaultSecondPayload :: "byte list" where
  "defaultSecondPayload = replicate 20 2"

definition defaultTileRecords :: "byte list list" where
  "defaultTileRecords = replicate 8 [7] @ [defaultFirstPayload, defaultSecondPayload]"

definition defaultPyramidBuffer :: "byte list" where
  "defaultPyramidBuffer =
     [1, 0, 0, 1, 0, 0, 1, 0, 0, 1, 0, 0, 1, 0, 0, 1, 0, 0, 1, 0, 0, 1, 0, 0]"

definition defaultPartialIndex :: "byte list" where
  "defaultPartialIndex = [120, 1, 1, 24, 0, 231, 255] @ defaultPyramidBuffer @ [0, 132, 0, 9]"

definition defaultFragmentSection :: "byte list" where
  "defaultFragmentSection = [8, 0, 0, 0, 0, 10, 0, 0, 20, 0, 0]"

definition defaultArchive :: "byte list" where
  "defaultArchive =
     [67, 79, 77, 84, 1, 0, 0, 0, 2, 0, 0, 0, 35, 0, 0, 0, 11, 0, 0, 0, 0, 0, 0, 0, 123, 125] @
     defaultPartialIndex @ defaultFragmentSection @
     [7, 7, 7, 7, 7, 7, 7, 7] @ defaultFirstPayload @ defaultSecondPayload"

definition defaultHeader :: Header where
  "defaultHeader =
     \<lparr> indexOffset = 26, pyramidIndexLength = 35, fragmentIndexLength = 11, dataOffset = 72,
       metadata = defaultMetadata, partialIndex = defaultPartialIndex \<rparr>"

definition defaultParse :: "byte list \<Rightarrow> error + Metadata" where
  "defaultParse bytes =
     (if bytes = stringBytes smallJson then Inr defaultMetadata else Inl SyntaxError)"

text \<open>The index cache after \<open>initIndex\<close>, and after the index fragment of zoom 8 (the bytes
  61 to 72 of the archive: the fragment and, the range being one byte too long, the first
  byte of the data section) has been fetched.\<close>

definition defaultCache :: IndexCache where
  "defaultCache =
     \<lparr> cacheMetadata = defaultMetadata,
       cachePartialIndex = defaultPartialIndex,
       cacheIndexOffset = 26,
       cachePyramidIndexLength = 35,
       cacheFragmentIndexLength = 11,
       fragmentedIndex = [] \<rparr>"

definition defaultFragmentRange :: FragmentRange where
  "defaultFragmentRange = \<lparr> fragmentIndex = 0, startOffset = 61, endOffset = 72 \<rparr>"

definition defaultCacheFetched :: IndexCache where
  "defaultCacheFetched =
     defaultCache\<lparr> fragmentedIndex := [(61, defaultFragmentRange, defaultFragmentSection @ [7])] \<rparr>"

text \<open>Scenario (b) of the specification: the tile matrix set holds zoom 3 only, with the
  limits \<open>{0, 0, 7, 7}\<close> in one fragment of side 8; there is no pyramid zoom, so the pyramid
  buffer is empty (11 bytes as a stored zlib stream), and the fragment section has
  \<open>5 + 3 \<times> 64\<close> bytes.\<close>

definition scenarioBZoom3 :: TileMatrix where
  "scenarioBZoom3 =
     \<lparr> zoom = 3, aggregationCoefficient = 3,
       tileMatrixLimits = \<lparr> minTileCol = 0, minTileRow = 0, maxTileCol = 7, maxTileRow = 7 \<rparr> \<rparr>"

definition scenarioBMetadata :: Metadata where
  "scenarioBMetadata =
     \<lparr> tileFormat = ''pbf'',
       tileMatrixSet =
         \<lparr> tileMatrixCRS = Some ''WebMercatorQuad'',
           fragmentOrdering = Some ''RowMajor'',
           tileOrdering = Some ''RowMajor'',
           tileMatrix = [scenarioBZoom3] \<rparr> \<rparr>"

definition scenarioBPartialIndex :: "byte list" where
  "scenarioBPartialIndex = [120, 1, 1, 0, 0, 255, 255, 0, 0, 0, 1]"

definition scenarioBHeader :: Header where
  "scenarioBHeader =
     \<lparr> indexOffset = 26, pyramidIndexLength = 11, fragmentIndexLength = 197, dataOffset = 234,
       metadata = scenarioBMetadata, partialIndex = scenarioBPartialIndex \<rparr>"

definition scenarioBCache :: IndexCache where
  "scenarioBCache =
     \<lparr> cacheMetadata = scenarioBMetadata,
       cachePartialIndex = scenarioBPartialIndex,
       cacheIndexOffset = 26,
       cachePyramidIndexLength = 11,
       cacheFragmentIndexLength = 197,
       fragmentedIndex = [] \<rparr>"

definition scenarioBReader :: ComtCache where
  "scenarioBReader = \<lparr> header = Some scenarioBHeader, indexCache = Some scenarioBCache \<rparr>"


section \<open>Index geometry: \<open>calculateIndexOffsetForTile\<close>\<close>

lemma calculateBounds_sparse:
  assumes "inRange x y limit" "0 \<le> minTileCol limit" "0 \<le> minTileRow limit"
  shows "calculateBounds c limit (Some x) (Some y) = sparseFragmentBoundsSpec c limit x y"
proof -
  have x0: "orDefault (Some x) (minTileCol limit) = x"
    using assms by (auto simp: orDefault_def inRange_def)
  have y0: "orDefault (Some y) (minTileRow limit) = y"
    using assms by (auto simp: orDefault_def inRange_def)
  show ?thesis
    unfolding calculateBounds_def sparseFragmentBoundsSpec_def x0 y0
    by (simp add: Let_def numTilesPerFragmentSide_def floorDiv_def max_def min_def)
qed

lemma indexOffsetReduce_sum:
  "list_all (\<lambda>t. zoom t = z \<longrightarrow> inRange x y (tileMatrixLimits t)) ts \<Longrightarrow>
   indexOffsetReduce ts z x y off = Inr (off + sum_list (map (contribution z x y) ts))"
proof (induction ts arbitrary: off)
  case Nil
  then show ?case by simp
next
  case (Cons t ts)
  then show ?case
    by (simp add: Let_def contribution_def isPyramidSection_def NUM_BYTES_TILE_SIZE_def
          calculatePyramidIndexOffsetForTile_def calculateFragmentIndexOffsetForTile_def)
qed

lemma filter_unique:
  "distinct (map f xs) \<Longrightarrow> x \<in> set xs \<Longrightarrow> filter (\<lambda>t. f t = f x) xs = [x]"
proof (induction xs)
  case Nil
  then show ?case by simp
next
  case (Cons a xs)
  show ?case
  proof (cases "a = x")
    case True
    with Cons.prems have "f x \<notin> f ` set xs" by simp
    then have "filter (\<lambda>t. f t = f x) xs = []"
      unfolding filter_empty_conv by (metis imageI)
    with True show ?thesis by simp
  next
    case False
    with Cons.prems have "x \<in> set xs" "f a \<noteq> f x" by auto
    with Cons show ?thesis by simp
  qed
qed

lemma sum_contribution_split:
  "sum_list (map (contribution z x y) (filter (\<lambda>t. zoom t \<le> z) ts)) =
   3 * tilesBelowZoomSpec ts z + sum_list (map (contribution z x y) (filter (\<lambda>t. zoom t = z) ts))"
  by (induction ts) (auto simp: tilesBelowZoomSpec_def contribution_def)

lemma contribution_at_zoom:
  assumes "inRange x y (tileMatrixLimits tm)"
    and "0 \<le> minTileCol (tileMatrixLimits tm)" "0 \<le> minTileRow (tileMatrixLimits tm)"
  shows "contribution (zoom tm) x y tm = 3 * entryAtZoomSpec tm x y"
  using calculateBounds_sparse[OF assms, of "aggregationCoefficient tm"]
  by (simp add: contribution_def entryAtZoomSpec_def Let_def NUM_BYTES_TILE_SIZE_def
        calculatePyramidIndexOffsetForTile_def calculateFragmentIndexOffsetForTile_def)

lemma list_all_unique_zoom:
  assumes "distinct (map zoom tms)" "tm \<in> set tms" "P tm"
  shows "list_all (\<lambda>t. zoom t = zoom tm \<longrightarrow> P t) (filter Q tms)"
proof -
  have "t = tm" if "t \<in> set tms" "zoom t = zoom tm" for t
    using assms(1,2) that by (meson distinct_map inj_onD)
  with assms(3) show ?thesis by (auto simp: list_all_iff)
qed

text \<open>
  Claim C4. For a tile \<open>(x, y)\<close> inside the limits of zoom \<open>z\<close>, \<open>calculateIndexOffsetForTile\<close>
  returns 3 bytes for every tile of every zoom below \<open>z\<close> plus, at zoom \<open>z\<close>, 3 bytes times
  the row-major ordinal of the tile in a pyramid zoom, or 3 bytes times (entries before the
  fragment + full rows in the fragment times the fragment's width + partial row) in a
  fragmented zoom, the sparse fragment bounds being the dense cell of \<open>(x, y)\<close> cut to the
  limits (\<open>entryAtZoomSpec\<close>). The tile matrix set has one matrix per zoom, tile indices are
  not negative, and the coefficient of a fragmented zoom is a natural number.
\<close>

theorem calculateIndexOffsetForTile_formula:
  assumes "distinct (map zoom tms)" "tm \<in> set tms" "zoom tm = z"
    and "inRange x y (tileMatrixLimits tm)"
    and "0 \<le> minTileCol (tileMatrixLimits tm)" "0 \<le> minTileRow (tileMatrixLimits tm)"
    and "aggregationCoefficient tm = -1 \<or> 0 \<le> aggregationCoefficient tm"
  shows "calculateIndexOffsetForTile tms z x y =
           Inr \<lparr> offset = 3 * tilesBelowZoomSpec tms z + 3 * entryAtZoomSpec tm x y,
                 index = tilesBelowZoomSpec tms z + entryAtZoomSpec tm x y \<rparr>"
proof -
  have all: "list_all (\<lambda>t. zoom t = z \<longrightarrow> inRange x y (tileMatrixLimits t))
               (filter (\<lambda>t. zoom t \<le> z) tms)"
    using list_all_unique_zoom[OF assms(1,2), of "\<lambda>t. inRange x y (tileMatrixLimits t)"] assms(3,4)
    by simp
  have one: "filter (\<lambda>t. zoom t = z) tms = [tm]"
    using filter_unique[OF assms(1,2)] assms(3) by simp
  have at: "contribution z x y tm = 3 * entryAtZoomSpec tm x y"
    using contribution_at_zoom[OF assms(4,5,6)] assms(3) by simp
  have "indexOffsetReduce (filter (\<lambda>t. zoom t \<le> z) tms) z x y 0 =
          Inr (3 * tilesBelowZoomSpec tms z + 3 * entryAtZoomSpec tm x y)"
    by (simp add: indexOffsetReduce_sum[OF all] sum_contribution_split one at)
  then show ?thesis
    by (simp add: calculateIndexOffsetForTile_def bindE_def NUM_BYTES_TILE_SIZE_def)
qed

text \<open>Witness for C4: the tile in column 9 of row 10 of zoom 4 in scenario (c), behind the
  64 tiles of zoom 3 and 99 entries of zoom 4.\<close>

theorem calculateIndexOffsetForTile_formula_witness:
  "inRange 9 10 (tileMatrixLimits scenarioCZoom4) \<and>
   calculateIndexOffsetForTile scenarioC 4 9 10 = Inr \<lparr> offset = 489, index = 163 \<rparr>"
proof -
  have t: "tilesBelowZoomSpec scenarioC 4 = 64"
    by (simp add: tilesBelowZoomSpec_def scenarioC_def scenarioCZoom3_def scenarioCZoom4_def
          numTilesOfLimit_def)
  have e: "entryAtZoomSpec scenarioCZoom4 9 10 = 99"
    by (simp add: entryAtZoomSpec_def scenarioCZoom4_def sparseFragmentBoundsSpec_def Let_def
          numberOfIndexEntriesBeforeFragment_def)
  have r: "inRange 9 10 (tileMatrixLimits scenarioCZoom4)"
    by (simp add: scenarioCZoom4_def inRange_def)
  have "calculateIndexOffsetForTile scenarioC 4 9 10 =
          Inr \<lparr> offset = 3 * tilesBelowZoomSpec scenarioC 4 + 3 * entryAtZoomSpec scenarioCZoom4 9 10,
                index = tilesBelowZoomSpec scenarioC 4 + entryAtZoomSpec scenarioCZoom4 9 10 \<rparr>"
    by (rule calculateIndexOffsetForTile_formula[OF _ _ _ r])
       (simp_all add: scenarioC_def scenarioCZoom3_def scenarioCZoom4_def)
  with r show ?thesis by (simp add: t e)
qed

section \<open>Index geometry: \<open>getFragmentRangeForTile\<close>\<close>

text \<open>
  Claim C3 (the code differs). For the tile \<open>(5, 4)\<close> of scenario (c), which lies in the first
  fragment of zoom 4, no fragment lies before the target (\<open>numFragmentsBeforeSpec\<close> is 0), but
  the code's \<open>calculateNumberOfFragmentsBefore(\<dots>) - 1\<close> is 1: with a metadata length of 100
  and a pyramid length of 50 the range starts at 155, not at 150.
\<close>

theorem getFragmentRangeForTile_first_fragment:
  "numFragmentsBeforeSpec 5 4 scenarioCLimits 3 = 0 \<and>
   calculateNumberOfFragmentsBefore 5 4 scenarioCLimits 3 - 1 = 1 \<and>
   getFragmentRangeForTile scenarioC 4 5 4 100 50 =
     Inr \<lparr> fragmentIndex = 0, startOffset = 155, endOffset = 250 \<rparr>"
  by code_simp

section \<open>The little-endian codecs\<close>

lemma hexValue_hexDigit: "d < 16 \<Longrightarrow> hexValue (hexDigit d) = Some (int d)"
proof -
  assume "d < 16"
  then have "d = 0 \<or> d = 1 \<or> d = 2 \<or> d = 3 \<or> d = 4 \<or> d = 5 \<or> d = 6 \<or> d = 7 \<or> d = 8 \<or> d = 9 \<or>
             d = 10 \<or> d = 11 \<or> d = 12 \<or> d = 13 \<or> d = 14 \<or> d = 15"
    by arith
  then show ?thesis
    unfolding hexValue_def hexDigit_def by (elim disjE) simp_all
qed

lemma sliceLast2_byte:
  assumes "b < 256"
  shows "sliceLast2 (''00'' @ toString16 b) = [hexDigit (b div 16), hexDigit (b mod 16)]"
proof (cases "b < 16")
  case True
  then have "toString16 b = [hexDigit b]" by (simp add: toString16.simps)
  with True show ?thesis by (simp add: sliceLast2_def hexDigit_def)
next
  case False
  with assms have "b div 16 < 16" by auto
  then have "toString16 (b div 16) = [hexDigit (b div 16)]" by (simp add: toString16.simps)
  with False have "toString16 b = [hexDigit (b div 16), hexDigit (b mod 16)]"
    by (subst toString16.simps) simp
  then show ?thesis by (simp add: sliceLast2_def)
qed

lemma parseInt16_byte:
  assumes "b < 256"
  shows "parseInt16 ([hexDigit (b div 16), hexDigit (b mod 16)] @ cs) acc = parseInt16 cs (acc * 256 + int b)"
proof -
  have h: "b div 16 < 16" using assms by auto
  have l: "b mod 16 < 16" by auto
  have eq: "(acc * 16 + int (b div 16)) * 16 + int (b mod 16) = acc * 256 + int b"
    by (simp add: algebra_simps zdiv_int zmod_int)
  have "parseInt16 ([hexDigit (b div 16), hexDigit (b mod 16)] @ cs) acc =
          parseInt16 cs ((acc * 16 + int (b div 16)) * 16 + int (b mod 16))"
    by (simp only: append_Cons append_Nil parseInt16.simps hexValue_hexDigit[OF h]
          hexValue_hexDigit[OF l] option.case)
  then show ?thesis by (simp only: eq)
qed

lemma parseInt16_last_byte:
  assumes "b < 256"
  shows "parseInt16 [hexDigit (b div 16), hexDigit (b mod 16)] acc = acc * 256 + int b"
  using parseInt16_byte[OF assms, of "[]" acc] by simp

lemma convertUInt24LEToNumber_value:
  assumes "0 \<le> off" "off + 3 \<le> int (length buffer)"
  shows "convertUInt24LEToNumber buffer off =
           Inr (uint (buffer ! nat off) + 256 * uint (buffer ! nat (off + 1)) +
                65536 * uint (buffer ! nat (off + 2)))"
proof -
  have lt: "nat (uint (w :: byte)) < 256" for w
    using unsigned_less[of w, where ?'a = nat] by simp
  have p: "parseInt16 (sliceLast2 (''00'' @ toString16 (nat (uint c))) @
                       sliceLast2 (''00'' @ toString16 (nat (uint b))) @
                       sliceLast2 (''00'' @ toString16 (nat (uint a)))) 0 =
           uint a + 256 * uint b + 65536 * uint c" for a b c :: byte
  proof -
    have "parseInt16 (sliceLast2 (''00'' @ toString16 (nat (uint c))) @
                       sliceLast2 (''00'' @ toString16 (nat (uint b))) @
                       sliceLast2 (''00'' @ toString16 (nat (uint a)))) 0 =
          ((0 * 256 + int (nat (uint c))) * 256 + int (nat (uint b))) * 256 + int (nat (uint a))"
      by (simp only: sliceLast2_byte[OF lt] parseInt16_byte[OF lt] parseInt16_last_byte[OF lt])
    then show ?thesis by simp
  qed
  have g0: "getUint8 buffer off = Inr (uint (buffer ! nat off))"
    and g1: "getUint8 buffer (off + 1) = Inr (uint (buffer ! nat (off + 1)))"
    and g2: "getUint8 buffer (off + 2) = Inr (uint (buffer ! nat (off + 2)))"
    using assms by (simp_all add: getUint8_def)
  show ?thesis
    unfolding convertUInt24LEToNumber_def g0 g1 g2 bindE_def
    by (simp only: sum.case Let_def p)
qed

lemma toInt32_id: "0 \<le> v \<Longrightarrow> v < 2147483648 \<Longrightarrow> toInt32 v = v"
  by (simp add: toInt32_def)

lemma size_parts:
  assumes "0 \<le> s" "s < 16777216"
  shows "and0xff s = s mod 256"
    and "and0xff (shiftRight s 8) = s div 256 mod 256"
    and "shiftRight s 16 = s div 65536"
    and "0 \<le> s div 65536" and "s div 65536 \<le> 255"
proof -
  have t: "toInt32 s = s" using assms by (simp add: toInt32_id)
  have "0 \<le> s div 256" "s div 256 < 2147483648" using assms by auto
  then have t2: "toInt32 (s div 256) = s div 256" by (simp add: toInt32_id)
  show "and0xff s = s mod 256" by (simp add: and0xff_def t)
  show "and0xff (shiftRight s 8) = s div 256 mod 256"
    by (simp add: and0xff_def shiftRight_def t t2)
  show "shiftRight s 16 = s div 65536" by (simp add: shiftRight_def t)
  show "0 \<le> s div 65536" "s div 65536 \<le> 255" using assms by auto
qed

lemma update3:
  "i + 3 \<le> length buf \<Longrightarrow>
   buf[i := a, Suc i := b, Suc (Suc i) := c] = take i buf @ [a, b, c] @ drop (i + 3) buf"
  by (rule nth_equalityI) (auto simp: nth_append nth_list_update nth_Cons' )

lemma encodeTileSizes_result:
  assumes "list_all (\<lambda>s. 0 \<le> s \<and> s < 16777216) sizes"
    and "0 \<le> idx" "nat idx + 3 * length sizes \<le> length buf"
  shows "encodeTileSizes sizes buf idx =
           Inr (take (nat idx) buf @ concat (map sizeBytes sizes) @
                drop (nat idx + 3 * length sizes) buf)"
  using assms
proof (induction sizes arbitrary: buf idx)
  case Nil
  then show ?case by simp
next
  case (Cons s sizes)
  define i where "i = nat idx"
  have idx: "idx = int i" using Cons.prems by (simp add: i_def)
  have s: "0 \<le> s" "s < 16777216" and rest: "list_all (\<lambda>s. 0 \<le> s \<and> s < 16777216) sizes"
    using Cons.prems by simp_all
  have len: "i + 3 \<le> length buf" "i + 3 + 3 * length sizes \<le> length buf"
    using Cons.prems by (simp_all add: i_def)
  define b3 where "b3 = buf[i := word_of_int (s mod 256), Suc i := word_of_int (s div 256 mod 256),
                           Suc (Suc i) := word_of_int (s div 65536)]"
  have w: "bindE (writeUint8 buf (and0xff s) idx) (\<lambda>b1.
           bindE (writeUint8 b1 (and0xff (shiftRight s 8)) (idx + 1)) (\<lambda>b2.
           bindE (writeUint8 b2 (shiftRight s 16) (idx + 2)) (\<lambda>b3. f b3))) = f b3" for f :: "byte list \<Rightarrow> error + byte list"
  proof -
    have r: "0 \<le> s mod 256" "s mod 256 \<le> 255" "0 \<le> s div 256 mod 256" "s div 256 mod 256 \<le> 255"
      by simp_all
    have w1: "writeUint8 buf (and0xff s) idx = Inr (buf[i := word_of_int (s mod 256)])"
      using len r by (simp add: writeUint8_def idx size_parts(1)[OF s])
    have w2: "writeUint8 b (and0xff (shiftRight s 8)) (idx + 1) = Inr (b[Suc i := word_of_int (s div 256 mod 256)])"
      if "length b = length buf" for b
      using len r that by (simp add: writeUint8_def idx size_parts(2)[OF s] nat_add_distrib)
    have w3: "writeUint8 b (shiftRight s 16) (idx + 2) = Inr (b[Suc (Suc i) := word_of_int (s div 65536)])"
      if "length b = length buf" for b
      using len that size_parts(4,5)[OF s] 
      by (simp add: writeUint8_def idx size_parts(3)[OF s] nat_add_distrib)
    show ?thesis
      by (simp add: bindE_def w1 w2 w3 b3_def)
  qed
  have b3eq: "b3 = take i buf @ sizeBytes s @ drop (i + 3) buf"
    unfolding b3_def sizeBytes_def by (rule update3[OF len(1)])
  have "length b3 = length buf" by (simp add: b3_def)
  with len have l3: "nat (idx + 3) + 3 * length sizes \<le> length b3"
    by (simp add: idx nat_add_distrib)
  have ih: "encodeTileSizes sizes b3 (idx + 3) =
              Inr (take (nat (idx + 3)) b3 @ concat (map sizeBytes sizes) @
                   drop (nat (idx + 3) + 3 * length sizes) b3)"
    by (rule Cons.IH[OF rest _ l3]) (simp add: idx)
  have n3: "nat (idx + 3) = i + 3" by (simp add: idx)
  have tk: "take (i + 3) b3 = take i buf @ sizeBytes s"
    using len by (simp add: b3eq sizeBytes_def)
  have dr: "drop (i + 3 + 3 * length sizes) b3 = drop (i + 3 + 3 * length sizes) buf"
    using len by (simp add: b3eq sizeBytes_def numeral_3_eq_3 add.commute)
  show ?case
    unfolding encodeTileSizes.simps Let_def w ih n3 tk dr
    by (simp add: i_def[symmetric] add.assoc add.commute)
qed

lemma length_sizeBytes: "length (sizeBytes s) = 3"
  by (simp add: sizeBytes_def)

lemma length_concat_sizeBytes: "length (concat (map sizeBytes xs)) = 3 * length xs"
  by (induction xs) (simp_all add: length_sizeBytes)

lemma nth_concat_sizeBytes:
  "i < length xs \<Longrightarrow> k < 3 \<Longrightarrow> concat (map sizeBytes xs) ! (3 * i + k) = sizeBytes (xs ! i) ! k"
proof (induction xs arbitrary: i)
  case Nil
  then show ?case by simp
next
  case (Cons x xs)
  show ?case
  proof (cases i)
    case 0
    with Cons.prems show ?thesis by (simp add: nth_append length_sizeBytes)
  next
    case (Suc j)
    with Cons.prems have "concat (map sizeBytes xs) ! (3 * j + k) = sizeBytes (xs ! j) ! k"
      by (intro Cons.IH) simp_all
    moreover have "3 * i + k - 3 = 3 * j + k" using Suc by simp
    ultimately show ?thesis using Suc by (simp add: nth_append length_sizeBytes)
  qed
qed

lemma uint_byte_of_int: "uint (word_of_int k :: byte) = k mod 256"
  by (simp add: uint_word_of_int)

lemma sizeBytes_value:
  assumes "0 \<le> s" "s < 16777216"
  shows "uint (sizeBytes s ! 0) + 256 * uint (sizeBytes s ! 1) + 65536 * uint (sizeBytes s ! 2) = s"
proof -
  define q1 r0 q2 r1 where "q1 = s div 256" and "r0 = s mod 256"
    and "q2 = q1 div 256" and "r1 = q1 mod 256"
  have e0: "s = 256 * q1 + r0" by (simp add: q1_def r0_def)
  have e1: "q1 = 256 * q2 + r1" by (simp add: q2_def r1_def)
  have e2: "s div 65536 = q2"
    using zdiv_zmult2_eq[where a=s and b=256 and c=256] by (simp add: q2_def q1_def)
  have m: "r0 mod 256 = r0" "r1 mod 256 = r1" by (simp_all add: r0_def r1_def)
  have "q2 mod 256 = q2" using assms by (simp add: e2[symmetric] mod_pos_pos_trivial)
  then have "uint (sizeBytes s ! 0) + 256 * uint (sizeBytes s ! 1) + 65536 * uint (sizeBytes s ! 2) =
        r0 + 256 * r1 + 65536 * q2"
    by (simp add: sizeBytes_def uint_byte_of_int e2 q1_def[symmetric] r0_def[symmetric] r1_def[symmetric] m)
  also have "\<dots> = s" using e0 e1 by simp
  finally show ?thesis .
qed

lemma offsetBytes_value:
  fixes v :: int
  assumes "0 \<le> v" "v < 1099511627776"
  shows "(v div 256 mod 256 + 256 * (v div 65536 mod 256) + 65536 * (v div 16777216 mod 256) +
          16777216 * (v div 4294967296 mod 256)) * 256 + v mod 256 = v"
proof -
  define q1 r0 q2 r1 q3 r2 q4 r3 where "q1 = v div 256" and "r0 = v mod 256"
    and "q2 = q1 div 256" and "r1 = q1 mod 256"
    and "q3 = q2 div 256" and "r2 = q2 mod 256"
    and "q4 = q3 div 256" and "r3 = q3 mod 256"
  have e0: "v = 256 * q1 + r0" by (simp add: q1_def r0_def)
  have e1: "q1 = 256 * q2 + r1" by (simp add: q2_def r1_def)
  have e2: "q2 = 256 * q3 + r2" by (simp add: q3_def r2_def)
  have e3: "q3 = 256 * q4 + r3" by (simp add: q4_def r3_def)
  have d2: "v div 65536 = q2"
    using zdiv_zmult2_eq[where a=v and b=256 and c=256] by (simp add: q2_def q1_def)
  have d3: "v div 16777216 = q3"
    using zdiv_zmult2_eq[where a=v and b=65536 and c=256] by (simp add: q3_def d2)
  have d4: "v div 4294967296 = q4"
    using zdiv_zmult2_eq[where a=v and b=16777216 and c=256] by (simp add: q4_def d3)
  have "q4 mod 256 = q4" using assms by (simp add: d4[symmetric] mod_pos_pos_trivial)
  then have "(v div 256 mod 256 + 256 * (v div 65536 mod 256) + 65536 * (v div 16777216 mod 256) +
          16777216 * (v div 4294967296 mod 256)) * 256 + v mod 256 =
        (r1 + 256 * r2 + 65536 * r3 + 16777216 * q4) * 256 + r0"
    by (simp add: d2 d3 d4 q1_def[symmetric] r0_def[symmetric] r1_def[symmetric] r2_def[symmetric] r3_def[symmetric])
  also have "\<dots> = v" using e0 e1 e2 e3 by simp
  finally show ?thesis .
qed

lemma Buffer_fill_prefix:
  "val \<noteq> [] \<Longrightarrow> Buffer_fill (replicate (length val + m) z) val 0 (length val) = val @ replicate m z"
  by (rule nth_equalityI) (auto simp: Buffer_fill_def nth_append)

lemma offsetBytes_unfold:
  "offsetBytes v = [word_of_int v, word_of_int (v div 256), word_of_int (v div 65536),
                    word_of_int (v div 16777216), word_of_int (v div 4294967296)]"
proof -
  have "[0..<5] = [0, 1, 2, 3, 4::nat]" by (simp add: eval_nat_numeral)
  then show ?thesis by (simp add: offsetBytes_def)
qed

lemma toBytesLE_5: "0 \<le> v \<Longrightarrow> v < 1099511627776 \<Longrightarrow> toBytesLE v 5 = Inr (offsetBytes v)"
  by (simp add: toBytesLE_def offsetBytes_def)

lemma convertUInt40LEToNumber_offsetBytes:
  assumes "0 \<le> v" "v < 1099511627776"
  shows "convertUInt40LEToNumber (offsetBytes v @ rest) 0 = Inr v"
proof -
  have g32: "getUint32LE (offsetBytes v @ rest) (0 + 1) =
               Inr (v div 256 mod 256 + 256 * (v div 65536 mod 256) +
                    65536 * (v div 16777216 mod 256) + 16777216 * (v div 4294967296 mod 256))"
    by (simp add: getUint32LE_def offsetBytes_unfold uint_byte_of_int)
  have g8: "getUint8 (offsetBytes v @ rest) 0 = Inr (v mod 256)"
    by (simp add: getUint8_def offsetBytes_unfold uint_byte_of_int)
  show ?thesis
    unfolding convertUInt40LEToNumber_def g32 g8 bindE_def
    by (simp only: sum.case offsetBytes_value[OF assms])
qed

lemma encodeFragmentByteAligned_result:
  assumes "0 \<le> absoluteOffset" "absoluteOffset < 1099511627776"
    and "list_all (\<lambda>s. 0 \<le> s \<and> s < 16777216) tileSizes"
  shows "encodeFragmentByteAligned absoluteOffset tileSizes =
           Inr (offsetBytes absoluteOffset @ concat (map sizeBytes tileSizes))"
proof -
  define n where "n = length tileSizes"
  have len: "- ((- (indexOffsetBitWidth + int n * 24)) div 8) = int (5 + 3 * n)"
    by (simp add: indexOffsetBitWidth_def)
  have alloc: "Buffer_alloc (int (5 + 3 * n)) = Inr (replicate (5 + 3 * n) 0)"
    by (simp add: Buffer_alloc_def)
  have l5: "length (offsetBytes absoluteOffset) = 5" by (simp add: offsetBytes_def)
  have fill: "Buffer_fill (replicate (5 + 3 * n) 0) (offsetBytes absoluteOffset) 0 5 =
                offsetBytes absoluteOffset @ replicate (3 * n) 0"
  proof -
    have "offsetBytes absoluteOffset \<noteq> []" using l5 by auto
    from Buffer_fill_prefix[OF this, of "3 * n" 0] show ?thesis by (simp add: l5)
  qed
  have enc: "encodeTileSizes tileSizes (offsetBytes absoluteOffset @ replicate (3 * n) 0) 5 =
               Inr (offsetBytes absoluteOffset @ concat (map sizeBytes tileSizes))"
    using encodeTileSizes_result[OF assms(3), of 5 "offsetBytes absoluteOffset @ replicate (3 * n) 0"] l5
    by (simp add: n_def)
  show ?thesis
    unfolding encodeFragmentByteAligned_def Let_def n_def[symmetric] len alloc
    by (simp add: bindE_def toBytesLE_5[OF assms(1,2)] indexOffsetByteWidth_def fill enc)
qed

text \<open>
  Claim C9. For an absolute offset below \<open>2^40\<close> and tile sizes below \<open>2^24\<close> (neither
  negative), \<open>encodeFragmentByteAligned\<close> returns a buffer of \<open>5 + 3 n\<close> bytes from which
  \<open>convertUInt40LEToNumber\<close> at byte 0 reads the offset and \<open>convertUInt24LEToNumber\<close> at byte
  \<open>5 + 3 i\<close> reads the \<open>i\<close>-th tile size.
\<close>

theorem encodeFragmentByteAligned_roundtrip:
  assumes "0 \<le> absoluteOffset" "absoluteOffset < 2 ^ 40"
    and "list_all (\<lambda>s. 0 \<le> s \<and> s < 2 ^ 24) tileSizes"
  shows "\<exists>buf. encodeFragmentByteAligned absoluteOffset tileSizes = Inr buf \<and>
               length buf = 5 + 3 * length tileSizes \<and>
               convertUInt40LEToNumber buf 0 = Inr absoluteOffset \<and>
               (\<forall>i < length tileSizes.
                  convertUInt24LEToNumber buf (5 + 3 * int i) = Inr (tileSizes ! i))"
proof -
  define buf where "buf = offsetBytes absoluteOffset @ concat (map sizeBytes tileSizes)"
  have a: "absoluteOffset < 1099511627776" using assms(2) by simp
  have s: "list_all (\<lambda>s. 0 \<le> s \<and> s < 16777216) tileSizes" using assms(3) by simp
  have l5: "length (offsetBytes absoluteOffset) = 5" by (simp add: offsetBytes_def)
  have enc: "encodeFragmentByteAligned absoluteOffset tileSizes = Inr buf"
    unfolding buf_def by (rule encodeFragmentByteAligned_result[OF assms(1) a s])
  have len: "length buf = 5 + 3 * length tileSizes"
    by (simp add: buf_def l5 length_concat_sizeBytes)
  have off: "convertUInt40LEToNumber buf 0 = Inr absoluteOffset"
    unfolding buf_def by (rule convertUInt40LEToNumber_offsetBytes[OF assms(1) a])
  have ent: "convertUInt24LEToNumber buf (5 + 3 * int i) = Inr (tileSizes ! i)"
    if i: "i < length tileSizes" for i
  proof -
    have b: "0 \<le> tileSizes ! i" "tileSizes ! i < 16777216"
      using s i by (simp_all add: list_all_length)
    have nth: "buf ! (5 + 3 * i + k) = sizeBytes (tileSizes ! i) ! k" if "k < 3" for k
      using nth_concat_sizeBytes[OF i that] by (simp add: buf_def nth_append l5)
    have n0: "nat (5 + 3 * int i) = 5 + 3 * i + 0" "nat (5 + 3 * int i + 1) = 5 + 3 * i + 1"
      "nat (5 + 3 * int i + 2) = 5 + 3 * i + 2" by simp_all
    have "convertUInt24LEToNumber buf (5 + 3 * int i) =
            Inr (uint (buf ! nat (5 + 3 * int i)) + 256 * uint (buf ! nat (5 + 3 * int i + 1)) +
                 65536 * uint (buf ! nat (5 + 3 * int i + 2)))"
      using i by (intro convertUInt24LEToNumber_value) (simp_all add: len)
    also have "\<dots> = Inr (tileSizes ! i)"
      unfolding n0 by (simp only: nth sizeBytes_value[OF b])
    finally show ?thesis .
  qed
  from enc len off ent show ?thesis by blast
qed

text \<open>Witness for C9: the offset 300 and the tile sizes 100 and 70000.\<close>

theorem encodeFragmentByteAligned_roundtrip_witness:
  "\<exists>buf. encodeFragmentByteAligned 300 [100, 70000] = Inr buf \<and> length buf = 11 \<and>
         convertUInt40LEToNumber buf 0 = Inr 300 \<and>
         convertUInt24LEToNumber buf 5 = Inr 100 \<and>
         convertUInt24LEToNumber buf 8 = Inr 70000"
proof -
  have h: "0 \<le> (300::int)" "(300::int) < 2 ^ 40"
    "list_all (\<lambda>s. 0 \<le> s \<and> s < 2 ^ 24) [100, 70000 :: int]"
    by simp_all
  from encodeFragmentByteAligned_roundtrip[OF h]
  obtain buf where b: "encodeFragmentByteAligned 300 [100, 70000] = Inr buf"
    "length buf = 5 + 3 * length [100, 70000 :: int]"
    "convertUInt40LEToNumber buf 0 = Inr 300"
    and e: "\<And>i. i < length [100, 70000 :: int] \<Longrightarrow>
       convertUInt24LEToNumber buf (5 + 3 * int i) = Inr ([100, 70000] ! i)"
    by blast
  have e0: "convertUInt24LEToNumber buf 5 = Inr 100" using e[of 0] by simp
  have e1: "convertUInt24LEToNumber buf 8 = Inr 70000" using e[of 1] by simp
  have l: "length buf = 11" using b(2) by simp
  from b(1) l b(3) e0 e1 show ?thesis by blast
qed

section \<open>The writer: lengths returned by \<open>writeIndex\<close>\<close>

lemma bindE_InrE:
  assumes "bindE m f = Inr y"
  obtains v where "m = Inr v" "f v = Inr y"
  using assms by (cases m) (simp_all add: bindE_def)

lemma toBytesLE_length: "toBytesLE v n = Inr b \<Longrightarrow> length b = n"
  by (auto simp: toBytesLE_def split: if_splits)

lemma writePadding_extends:
  "writePadding n st = Inr st' \<Longrightarrow>
   \<exists>cs. outStream st' = outStream st @ cs \<and> list_all (\<lambda>c. length c = 3) cs \<and> length cs = n \<and>
        indexFragmentLength st' = indexFragmentLength st + 3 * int n \<and>
        dataSectionOffset st' = dataSectionOffset st"
proof (induction n arbitrary: st)
  case 0
  then show ?case by simp
next
  case (Suc n)
  from Suc.prems[unfolded writePadding.simps]
  obtain zero where z: "toBytesLE 0 (nat NUM_BYTES_TILE_SIZE) = Inr zero"
    and w: "writePadding n (st\<lparr> outStream := outStream st @ [zero],
              indexFragmentLength := indexFragmentLength st + NUM_BYTES_TILE_SIZE \<rparr>) = Inr st'"
    by (rule bindE_InrE)
  have lz: "length zero = 3" using toBytesLE_length[OF z] by (simp add: NUM_BYTES_TILE_SIZE_def)
  from Suc.IH[OF w] obtain cs where cs: "outStream st' = (outStream st @ [zero]) @ cs"
    "list_all (\<lambda>c. length c = 3) cs" "length cs = n"
    "indexFragmentLength st' = indexFragmentLength st + NUM_BYTES_TILE_SIZE + 3 * int n"
    "dataSectionOffset st' = dataSectionOffset st"
    by auto
  show ?case
    by (rule exI[of _ "zero # cs"]) (use cs lz in \<open>simp add: NUM_BYTES_TILE_SIZE_def\<close>)
qed

lemma length_concat_threes:
  "list_all (\<lambda>c. length c = 3) cs \<Longrightarrow> int (length (concat cs)) = 3 * int (length cs)"
  by (induction cs) simp_all

lemma writeFragmentEntry_extends:
  assumes "writeFragmentEntry tms st tile = Inr st'"
  shows "\<exists>cs. outStream st' = outStream st @ cs \<and>
              list_all (\<lambda>c. length c = 5 \<or> length c = 3) cs \<and>
              indexFragmentLength st' = indexFragmentLength st + int (length (concat cs))"
proof -
  from assms[unfolded writeFragmentEntry_def] obtain u where
    a: "bindE (if greaterThan (tileFragmentIndex tile) (previousFragmentIndex st)
          then bindE (toBytesLE (dataSectionOffset st) (nat NUM_BYTES_ABSOLUTE_OFFSET))
                 (\<lambda>absoluteFragmentOffset.
                    Inr (st\<lparr> outStream := outStream st @ [absoluteFragmentOffset],
                             indexFragmentLength :=
                               indexFragmentLength st + NUM_BYTES_ABSOLUTE_OFFSET \<rparr>))
          else Inr st) (\<lambda>st1.
     bindE (calculateIndexOffsetForTile tms (tileZoom tile) (column tile) (row tile)) (\<lambda>r.
       (let currentIndex = index r;
            padding = currentIndex - previousIndex st1 - 1
        in bindE (if padding > 0 then writePadding (nat padding) st1 else Inr st1) (\<lambda>st2.
           bindE (toBytesLE (tileSize tile) (nat NUM_BYTES_TILE_SIZE)) (\<lambda>indexEntry.
             Inr (st2\<lparr> outStream := outStream st2 @ [indexEntry],
                      indexFragmentLength := indexFragmentLength st2 + NUM_BYTES_TILE_SIZE,
                      dataSectionOffset := dataSectionOffset st2 + tileSize tile,
                      previousFragmentIndex := tileFragmentIndex tile,
                      previousIndex := currentIndex \<rparr>)))))) = Inr st'"
    by (rule bindE_InrE)
  from a obtain st1 where
    s1: "(if greaterThan (tileFragmentIndex tile) (previousFragmentIndex st)
          then bindE (toBytesLE (dataSectionOffset st) (nat NUM_BYTES_ABSOLUTE_OFFSET))
                 (\<lambda>absoluteFragmentOffset.
                    Inr (st\<lparr> outStream := outStream st @ [absoluteFragmentOffset],
                             indexFragmentLength :=
                               indexFragmentLength st + NUM_BYTES_ABSOLUTE_OFFSET \<rparr>))
          else Inr st) = Inr st1"
    and b: "bindE (calculateIndexOffsetForTile tms (tileZoom tile) (column tile) (row tile)) (\<lambda>r.
       (let currentIndex = index r;
            padding = currentIndex - previousIndex st1 - 1
        in bindE (if padding > 0 then writePadding (nat padding) st1 else Inr st1) (\<lambda>st2.
           bindE (toBytesLE (tileSize tile) (nat NUM_BYTES_TILE_SIZE)) (\<lambda>indexEntry.
             Inr (st2\<lparr> outStream := outStream st2 @ [indexEntry],
                      indexFragmentLength := indexFragmentLength st2 + NUM_BYTES_TILE_SIZE,
                      dataSectionOffset := dataSectionOffset st2 + tileSize tile,
                      previousFragmentIndex := tileFragmentIndex tile,
                      previousIndex := currentIndex \<rparr>))))) = Inr st'"
    by (rule bindE_InrE)
  from b[unfolded Let_def] obtain r where
    "calculateIndexOffsetForTile tms (tileZoom tile) (column tile) (row tile) = Inr r"
    and c: "bindE (if index r - previousIndex st1 - 1 > 0
               then writePadding (nat (index r - previousIndex st1 - 1)) st1 else Inr st1) (\<lambda>st2.
           bindE (toBytesLE (tileSize tile) (nat NUM_BYTES_TILE_SIZE)) (\<lambda>indexEntry.
             Inr (st2\<lparr> outStream := outStream st2 @ [indexEntry],
                      indexFragmentLength := indexFragmentLength st2 + NUM_BYTES_TILE_SIZE,
                      dataSectionOffset := dataSectionOffset st2 + tileSize tile,
                      previousFragmentIndex := tileFragmentIndex tile,
                      previousIndex := index r \<rparr>))) = Inr st'"
    by (rule bindE_InrE)
  from c obtain st2 where
    s2: "(if index r - previousIndex st1 - 1 > 0
              then writePadding (nat (index r - previousIndex st1 - 1)) st1 else Inr st1) = Inr st2"
    and d: "bindE (toBytesLE (tileSize tile) (nat NUM_BYTES_TILE_SIZE)) (\<lambda>indexEntry.
             Inr (st2\<lparr> outStream := outStream st2 @ [indexEntry],
                      indexFragmentLength := indexFragmentLength st2 + NUM_BYTES_TILE_SIZE,
                      dataSectionOffset := dataSectionOffset st2 + tileSize tile,
                      previousFragmentIndex := tileFragmentIndex tile,
                      previousIndex := index r \<rparr>)) = Inr st'"
    by (rule bindE_InrE)
  from d obtain indexEntry where
    e: "toBytesLE (tileSize tile) (nat NUM_BYTES_TILE_SIZE) = Inr indexEntry"
    and st': "st' = st2\<lparr> outStream := outStream st2 @ [indexEntry],
                      indexFragmentLength := indexFragmentLength st2 + NUM_BYTES_TILE_SIZE,
                      dataSectionOffset := dataSectionOffset st2 + tileSize tile,
                      previousFragmentIndex := tileFragmentIndex tile,
                      previousIndex := index r \<rparr>"
    by (rule bindE_InrE) simp
  from s1 obtain c1 where c1: "outStream st1 = outStream st @ c1"
    "list_all (\<lambda>c. length c = 5) c1"
    "indexFragmentLength st1 = indexFragmentLength st + int (length (concat c1))"
  proof (cases "greaterThan (tileFragmentIndex tile) (previousFragmentIndex st)")
    case True
    with s1 have "bindE (toBytesLE (dataSectionOffset st) (nat NUM_BYTES_ABSOLUTE_OFFSET))
                 (\<lambda>absoluteFragmentOffset.
                    Inr (st\<lparr> outStream := outStream st @ [absoluteFragmentOffset],
                             indexFragmentLength :=
                               indexFragmentLength st + NUM_BYTES_ABSOLUTE_OFFSET \<rparr>)) = Inr st1"
      by simp
    then obtain p where p: "toBytesLE (dataSectionOffset st) (nat NUM_BYTES_ABSOLUTE_OFFSET) = Inr p"
      and st1: "st1 = st\<lparr> outStream := outStream st @ [p],
                     indexFragmentLength := indexFragmentLength st + NUM_BYTES_ABSOLUTE_OFFSET \<rparr>"
      by (rule bindE_InrE) simp
    have "length p = 5" using toBytesLE_length[OF p] by (simp add: NUM_BYTES_ABSOLUTE_OFFSET_def)
    then show ?thesis using that[of "[p]"] st1 by (simp add: NUM_BYTES_ABSOLUTE_OFFSET_def)
  next
    case False
    with s1 show ?thesis using that[of "[]"] by simp
  qed
  from s2 obtain c2 where c2: "outStream st2 = outStream st1 @ c2"
    "list_all (\<lambda>c. length c = 3) c2"
    "indexFragmentLength st2 = indexFragmentLength st1 + int (length (concat c2))"
  proof (cases "index r - previousIndex st1 - 1 > 0")
    case True
    with s2 have "writePadding (nat (index r - previousIndex st1 - 1)) st1 = Inr st2" by simp
    from writePadding_extends[OF this] obtain cs where cs: "outStream st2 = outStream st1 @ cs"
      "list_all (\<lambda>c. length c = 3) cs"
      "indexFragmentLength st2 =
         indexFragmentLength st1 + 3 * int (length cs)"
      by auto
    show ?thesis using that[of cs] cs length_concat_threes[OF cs(2)] by simp
  next
    case False
    with s2 show ?thesis using that[of "[]"] by simp
  qed
  have le: "length indexEntry = 3" using toBytesLE_length[OF e] by (simp add: NUM_BYTES_TILE_SIZE_def)
  have a1: "list_all (\<lambda>c. length c = 5 \<or> length c = 3) c1"
    using c1(2) by (simp add: list_all_iff)
  have a2: "list_all (\<lambda>c. length c = 5 \<or> length c = 3) c2"
    using c2(2) by (simp add: list_all_iff)
  show ?thesis
    by (rule exI[of _ "c1 @ c2 @ [indexEntry]"])
       (simp add: st' c1(1,3) c2(1,3) le a1 a2 NUM_BYTES_TILE_SIZE_def)
qed

lemma writeFragmentEntries_extends:
  "writeFragmentEntries tms st tiles = Inr st' \<Longrightarrow>
   \<exists>cs. outStream st' = outStream st @ cs \<and>
        list_all (\<lambda>c. length c = 5 \<or> length c = 3) cs \<and>
        indexFragmentLength st' = indexFragmentLength st + int (length (concat cs))"
proof (induction tiles arbitrary: st)
  case Nil
  then show ?case by simp
next
  case (Cons tile tiles)
  from Cons.prems[unfolded writeFragmentEntries.simps]
  obtain st1 where s1: "writeFragmentEntry tms st tile = Inr st1"
    and s2: "writeFragmentEntries tms st1 tiles = Inr st'"
    by (rule bindE_InrE)
  from writeFragmentEntry_extends[OF s1] obtain c1 where c1: "outStream st1 = outStream st @ c1"
    "list_all (\<lambda>c. length c = 5 \<or> length c = 3) c1"
    "indexFragmentLength st1 = indexFragmentLength st + int (length (concat c1))"
    by auto
  from Cons.IH[OF s2] obtain c2 where c2: "outStream st' = outStream st1 @ c2"
    "list_all (\<lambda>c. length c = 5 \<or> length c = 3) c2"
    "indexFragmentLength st' = indexFragmentLength st1 + int (length (concat c2))"
    by auto
  show ?case
    by (rule exI[of _ "c1 @ c2"]) (simp add: c1 c2)
qed

lemma length_concat_fives_threes:
  "list_all (\<lambda>c. length c = 5 \<or> length c = 3) cs \<Longrightarrow>
   int (length (concat cs)) =
     5 * int (length (filter (\<lambda>c. length c = 5) cs)) +
     3 * int (length (filter (\<lambda>c. length c = 3) cs))"
  by (induction cs) auto

lemma Buffer_alloc_Inr: "Buffer_alloc n = Inr b \<Longrightarrow> b = replicate (nat n) 0"
  by (auto simp: Buffer_alloc_def split: if_splits)

lemma writeIndex_result:
  assumes "writeIndex zlibSync out tiles md pyramidMaxZoom = Inr (out', pl, fl)"
  shows "\<exists>rest pyramidBuffer offsetAfterPyramid chunks.
           writePyramidEntries
             (nat (calculateNumTiles
                (filter (\<lambda>set. zoom set \<le> pyramidMaxZoom) (tileMatrix (tileMatrixSet md)))))
             0 tiles
             (replicate (nat (calculateNumTiles
                (filter (\<lambda>set. zoom set \<le> pyramidMaxZoom) (tileMatrix (tileMatrixSet md))) *
                 NUM_BYTES_TILE_SIZE)) 0) 0 =
             Inr (rest, pyramidBuffer, offsetAfterPyramid) \<and>
           out' = out @ [zlibSync pyramidBuffer] @ chunks \<and>
           pl = int (length (zlibSync pyramidBuffer)) \<and>
           fl = int (length (concat chunks)) \<and>
           list_all (\<lambda>c. length c = 5 \<or> length c = 3) chunks"
proof -
  define n where "n = calculateNumTiles
     (filter (\<lambda>set. zoom set \<le> pyramidMaxZoom) (tileMatrix (tileMatrixSet md)))"
  from assms[unfolded writeIndex_def Let_def, folded n_def] obtain comtIndex where
    "ComtIndex_new md = Inr comtIndex"
    and a: "bindE (Buffer_alloc (n * NUM_BYTES_TILE_SIZE)) (\<lambda>indexPyramidBuffer.
           bindE (writePyramidEntries (nat n) 0 tiles indexPyramidBuffer 0)
             (\<lambda>(rest, pyramidBuffer, offsetAfterPyramid).
                bindE (writeFragmentEntries (tileMatrix comtIndex)
                            \<lparr> outStream = out @ [zlibSync pyramidBuffer],
                              dataSectionOffset = offsetAfterPyramid,
                              previousFragmentIndex = Some (-1),
                              previousIndex = int (length (zlibSync pyramidBuffer)),
                              indexFragmentLength = 0 \<rparr> rest) (\<lambda>st.
                     Inr (outStream st,
                          int (length (zlibSync pyramidBuffer)), indexFragmentLength st)))) =
        Inr (out', pl, fl)"
    by (rule bindE_InrE)
  from a obtain indexPyramidBuffer where
    al: "Buffer_alloc (n * NUM_BYTES_TILE_SIZE) = Inr indexPyramidBuffer"
    and b: "bindE (writePyramidEntries (nat n) 0 tiles indexPyramidBuffer 0)
             (\<lambda>(rest, pyramidBuffer, offsetAfterPyramid).
                bindE (writeFragmentEntries (tileMatrix comtIndex)
                            \<lparr> outStream = out @ [zlibSync pyramidBuffer],
                              dataSectionOffset = offsetAfterPyramid,
                              previousFragmentIndex = Some (-1),
                              previousIndex = int (length (zlibSync pyramidBuffer)),
                              indexFragmentLength = 0 \<rparr> rest) (\<lambda>st.
                     Inr (outStream st,
                          int (length (zlibSync pyramidBuffer)), indexFragmentLength st))) =
        Inr (out', pl, fl)"
    by (rule bindE_InrE)
  from b obtain v where
    p: "writePyramidEntries (nat n) 0 tiles indexPyramidBuffer 0 = Inr v"
    and c: "(case v of (rest, pyramidBuffer, offsetAfterPyramid) \<Rightarrow>
                bindE (writeFragmentEntries (tileMatrix comtIndex)
                            \<lparr> outStream = out @ [zlibSync pyramidBuffer],
                              dataSectionOffset = offsetAfterPyramid,
                              previousFragmentIndex = Some (-1),
                              previousIndex = int (length (zlibSync pyramidBuffer)),
                              indexFragmentLength = 0 \<rparr> rest) (\<lambda>st.
                     Inr (outStream st,
                          int (length (zlibSync pyramidBuffer)), indexFragmentLength st))) =
        Inr (out', pl, fl)"
    by (rule bindE_InrE)
  obtain rest pyramidBuffer offsetAfterPyramid where v: "v = (rest, pyramidBuffer, offsetAfterPyramid)"
    by (cases v) auto
  from c[unfolded v prod.case] obtain st where
    f: "writeFragmentEntries (tileMatrix comtIndex)
                            \<lparr> outStream = out @ [zlibSync pyramidBuffer],
                              dataSectionOffset = offsetAfterPyramid,
                              previousFragmentIndex = Some (-1),
                              previousIndex = int (length (zlibSync pyramidBuffer)),
                              indexFragmentLength = 0 \<rparr> rest = Inr st"
    and r: "Inr (outStream st, int (length (zlibSync pyramidBuffer)), indexFragmentLength st) =
            (Inr (out', pl, fl) :: error + (stream \<times> int \<times> int))"
    by (rule bindE_InrE)
  from writeFragmentEntries_extends[OF f] obtain chunks where
    cs: "outStream st = (out @ [zlibSync pyramidBuffer]) @ chunks"
    "list_all (\<lambda>c. length c = 5 \<or> length c = 3) chunks"
    "indexFragmentLength st = int (length (concat chunks))"
    by auto
  have ib: "indexPyramidBuffer = replicate (nat (n * NUM_BYTES_TILE_SIZE)) 0"
    by (rule Buffer_alloc_Inr[OF al])
  show ?thesis
    unfolding n_def[symmetric]
    by (rule exI[of _ rest], rule exI[of _ pyramidBuffer], rule exI[of _ offsetAfterPyramid],
        rule exI[of _ chunks])
       (use p r cs in \<open>simp add: v ib\<close>)
qed

lemma writeAt_replace:
  "length a = p \<Longrightarrow> length b = length c \<Longrightarrow> writeAt (a @ c @ r) b p = a @ b @ r"
  by (simp add: writeAt_def)

lemma writeUInt32LE_length: "writeUInt32LE v = Inr b \<Longrightarrow> length b = 4"
  by (auto simp: writeUInt32LE_def split: if_splits)

lemma writeBigUint64LE_length: "writeBigUint64LE v = Inr b \<Longrightarrow> length b = 8"
  by (auto simp: writeBigUint64LE_def split: if_splits)

lemma writeHeader_Inr:
  assumes "writeHeader out n = Inr hs"
  obtains versionBuffer metadataLengthBuffer where
    "hs = out @ [stringBytes MAGIC, versionBuffer, metadataLengthBuffer, replicate 4 0, replicate 8 0]"
    "length versionBuffer = 4" "length metadataLengthBuffer = 4"
proof -
  from assms[unfolded writeHeader_def] obtain vb where
    v: "writeUInt32LE VERSION = Inr vb"
    and a: "bindE (writeUInt32LE n) (\<lambda>metadataLengthBuffer.
       Inr (out @ [stringBytes MAGIC, vb, metadataLengthBuffer, replicate 4 0, replicate 8 0])) = Inr hs"
    by (rule bindE_InrE)
  from a obtain mb where m: "writeUInt32LE n = Inr mb"
    and h: "hs = out @ [stringBytes MAGIC, vb, mb, replicate 4 0, replicate 8 0]"
    by (rule bindE_InrE) simp
  show ?thesis
    using that[OF h writeUInt32LE_length[OF v] writeUInt32LE_length[OF m]] .
qed

subsection \<open>The small archive, step by step\<close>

lemma small_ComtIndex_new: "ComtIndex_new smallMetadata = Inr (tileMatrixSet smallMetadata)"
  by code_simp

lemma small_tileMatrix: "tileMatrix (tileMatrixSet smallMetadata) = smallMatrices"
  by (simp add: smallMetadata_def)

lemma small_numTiles:
  "calculateNumTiles (filter (\<lambda>set. zoom set \<le> 1) smallMatrices) = 5"
  by code_simp

lemma small_alloc: "Buffer_alloc (5 * NUM_BYTES_TILE_SIZE) = Inr (replicate 15 0)"
  by (simp add: Buffer_alloc_def NUM_BYTES_TILE_SIZE_def)

lemma small_pyramid_loop:
  "writePyramidEntries 5 0 smallSizeRecords (replicate 15 0) 0 =
     Inr ([smallFragmentTile], smallPyramidBuffer, 15)"
  by code_simp

lemma small_zlib: "zlibStored smallPyramidBuffer = smallPartialIndex"
  by code_simp

lemma small_length_partial: "int (length smallPartialIndex) = 26"
  by (simp add: smallPartialIndex_def)

lemma small_fragment_index: "calculateIndexOffsetForTile smallMatrices 2 2 1 = Inr \<lparr> offset = 33, index = 11 \<rparr>"
  by code_simp

lemma small_last_pyramid_index: "calculateIndexOffsetForTile smallMatrices 1 1 1 = Inr \<lparr> offset = 12, index = 4 \<rparr>"
  by code_simp

lemma small_fragment_loop:
  "writeFragmentEntries smallMatrices
     \<lparr> outStream = out @ [smallPartialIndex], dataSectionOffset = 15,
       previousFragmentIndex = Some (-1), previousIndex = 26, indexFragmentLength = 0 \<rparr>
     [smallFragmentTile] =
   Inr \<lparr> outStream = out @ [smallPartialIndex] @ [[15, 0, 0, 0, 0], [9, 0, 0]],
         dataSectionOffset = 24, previousFragmentIndex = Some 0, previousIndex = 11,
         indexFragmentLength = 8 \<rparr>"
proof -
  have v: "validateTileSize 9 = Inr ()" by (simp add: validateTileSize_def MAX_TILE_SIZE_def)
  have g: "greaterThan (Some 0) (Some (- 1))" by (simp add: greaterThan_def)
  have p: "toBytesLE 15 5 = Inr [15, 0, 0, 0, 0]" by code_simp
  have e: "toBytesLE 9 3 = Inr [9, 0, 0]" by code_simp
  show ?thesis
    by (simp add: writeFragmentEntry_def smallFragmentTile_def bindE_def Let_def v g p e
          small_fragment_index NUM_BYTES_ABSOLUTE_OFFSET_def NUM_BYTES_TILE_SIZE_def)
qed

lemma small_writeIndex:
  "writeIndex zlibStored out smallSizeRecords smallMetadata 1 =
     Inr (out @ [smallPartialIndex] @ [[15, 0, 0, 0, 0], [9, 0, 0]], 26, 8)"
proof -
  have n5: "nat (5::int) = 5" by simp
  show ?thesis
    unfolding writeIndex_def Let_def small_ComtIndex_new small_tileMatrix small_numTiles
      small_alloc n5 bindE_def sum.case small_pyramid_loop prod.case small_zlib
      small_length_partial small_fragment_loop
    by simp
qed

lemma small_writeHeader: "writeHeader [] (int (length smallJson)) = Inr smallHeaderStream"
  by code_simp

lemma small_patch:
  "writeUInt32LE 26 = Inr [26, 0, 0, 0]" "writeBigUint64LE 8 = Inr [8, 0, 0, 0, 0, 0, 0, 0]"
  by code_simp+

lemma small_file:
  "writeAt (writeAt (concat (writeTiles
      (writeMetadata smallHeaderStream smallJson @ [smallPartialIndex] @
         [[15, 0, 0, 0, 0], [9, 0, 0]]) smallTileRecords)) [26, 0, 0, 0] 12)
      [8, 0, 0, 0, 0, 0, 0, 0] 16 = smallArchive"
  by code_simp

lemma small_createComTileArchive:
  "createComTileArchive zlibStored smallMetadata smallJson smallSizeRecords smallTileRecords 1 =
     Inr smallArchive"
  unfolding createComTileArchive_def Let_def small_writeHeader bindE_def sum.case small_writeIndex
    prod.case fst_conv snd_conv small_patch small_file
  by simp

text \<open>
  Claim C10. Whenever the converter finishes, the file is the magic, the version, the metadata
  length, the two patched lengths, the metadata, the compressed pyramid buffer, the chunks of
  the fragment section and the payloads; the first length \<open>writeIndex\<close> returns is the byte
  length of the compressed pyramid buffer, the second is the byte length of the fragment
  section, whose chunks are 5-byte offset prefixes and 3-byte size entries (padding included),
  and these two numbers are what is patched into bytes 12..16 and 16..24 of the header.
\<close>

theorem writeIndex_lengths_are_bytes_written:
  assumes "createComTileArchive zlibSync md metadataJson sizeRecords tileRecords pyramidMaxZoom =
             Inr file"
  shows "\<exists>headerStream rest pyramidBuffer offsetAfterPyramid chunks
            versionBuffer metadataLengthBuffer pyramidLength fragmentLength.
           writeHeader [] (int (length metadataJson)) = Inr headerStream \<and>
           writePyramidEntries
             (nat (calculateNumTiles
                (filter (\<lambda>set. zoom set \<le> pyramidMaxZoom) (tileMatrix (tileMatrixSet md)))))
             0 sizeRecords
             (replicate (nat (calculateNumTiles
                (filter (\<lambda>set. zoom set \<le> pyramidMaxZoom) (tileMatrix (tileMatrixSet md))) *
                 NUM_BYTES_TILE_SIZE)) 0) 0 =
             Inr (rest, pyramidBuffer, offsetAfterPyramid) \<and>
           writeIndex zlibSync (writeMetadata headerStream metadataJson) sizeRecords md
               pyramidMaxZoom =
             Inr (writeMetadata headerStream metadataJson @ [zlibSync pyramidBuffer] @ chunks,
                  int (length (zlibSync pyramidBuffer)), int (length (concat chunks))) \<and>
           list_all (\<lambda>c. length c = 5 \<or> length c = 3) chunks \<and>
           int (length (concat chunks)) =
             5 * int (length (filter (\<lambda>c. length c = 5) chunks)) +
             3 * int (length (filter (\<lambda>c. length c = 3) chunks)) \<and>
           writeUInt32LE (int (length (zlibSync pyramidBuffer))) = Inr pyramidLength \<and>
           writeBigUint64LE (int (length (concat chunks))) = Inr fragmentLength \<and>
           length versionBuffer = 4 \<and> length metadataLengthBuffer = 4 \<and>
           length pyramidLength = 4 \<and> length fragmentLength = 8 \<and>
           file = stringBytes MAGIC @ versionBuffer @ metadataLengthBuffer @
                  pyramidLength @ fragmentLength @
                  stringBytes metadataJson @ zlibSync pyramidBuffer @ concat chunks @
                  concat (filter (\<lambda>tile. length tile > 0) tileRecords)"
proof -
  from assms[unfolded createComTileArchive_def Let_def] obtain s1 where
    h: "writeHeader [] (int (length metadataJson)) = Inr s1"
    and a: "bindE (writeIndex zlibSync (writeMetadata s1 metadataJson) sizeRecords md pyramidMaxZoom)
              (\<lambda>(s3, indexStats).
                 bindE (writeUInt32LE (fst indexStats)) (\<lambda>pyramidBuffer.
                 bindE (writeBigUint64LE (snd indexStats)) (\<lambda>fragmentBuffer.
                   Inr (writeAt (writeAt (concat (writeTiles s3 tileRecords)) pyramidBuffer 12)
                          fragmentBuffer 16)))) = Inr file"
    by (rule bindE_InrE)
  from a obtain v where
    w: "writeIndex zlibSync (writeMetadata s1 metadataJson) sizeRecords md pyramidMaxZoom = Inr v"
    and b: "(case v of (s3, indexStats) \<Rightarrow>
                 bindE (writeUInt32LE (fst indexStats)) (\<lambda>pyramidBuffer.
                 bindE (writeBigUint64LE (snd indexStats)) (\<lambda>fragmentBuffer.
                   Inr (writeAt (writeAt (concat (writeTiles s3 tileRecords)) pyramidBuffer 12)
                          fragmentBuffer 16)))) = Inr file"
    by (rule bindE_InrE)
  obtain s3 pl fl where v: "v = (s3, pl, fl)" by (cases v) auto
  from b[unfolded v prod.case fst_conv snd_conv] obtain pb where
    p: "writeUInt32LE pl = Inr pb"
    and c: "bindE (writeBigUint64LE fl) (\<lambda>fragmentBuffer.
              Inr (writeAt (writeAt (concat (writeTiles s3 tileRecords)) pb 12) fragmentBuffer 16)) =
            Inr file"
    by (rule bindE_InrE)
  from c obtain fb where
    f: "writeBigUint64LE fl = Inr fb"
    and fileEq: "file = writeAt (writeAt (concat (writeTiles s3 tileRecords)) pb 12) fb 16"
    by (rule bindE_InrE) simp
  from writeIndex_result[OF w[unfolded v]] obtain rest pyramidBuffer offsetAfterPyramid chunks where
    r: "writePyramidEntries
             (nat (calculateNumTiles
                (filter (\<lambda>set. zoom set \<le> pyramidMaxZoom) (tileMatrix (tileMatrixSet md)))))
             0 sizeRecords
             (replicate (nat (calculateNumTiles
                (filter (\<lambda>set. zoom set \<le> pyramidMaxZoom) (tileMatrix (tileMatrixSet md))) *
                 NUM_BYTES_TILE_SIZE)) 0) 0 =
             Inr (rest, pyramidBuffer, offsetAfterPyramid)"
    and s3: "s3 = writeMetadata s1 metadataJson @ [zlibSync pyramidBuffer] @ chunks"
    and pl: "pl = int (length (zlibSync pyramidBuffer))"
    and fl: "fl = int (length (concat chunks))"
    and cs: "list_all (\<lambda>c. length c = 5 \<or> length c = 3) chunks"
    by blast
  from h obtain vb mb where
    s1: "s1 = [] @ [stringBytes MAGIC, vb, mb, replicate 4 0, replicate 8 0]"
    and lv: "length vb = 4" and lm: "length mb = 4"
    by (rule writeHeader_Inr)
  have lp: "length pb = 4" by (rule writeUInt32LE_length[OF p])
  have lf: "length fb = 8" by (rule writeBigUint64LE_length[OF f])
  define tail where "tail = stringBytes metadataJson @ zlibSync pyramidBuffer @ concat chunks @
                  concat (filter (\<lambda>tile. length tile > 0) tileRecords)"
  have c0: "concat (writeTiles s3 tileRecords) =
              (stringBytes MAGIC @ vb @ mb) @ replicate 4 0 @ (replicate 8 0 @ tail)"
    by (simp add: s3 s1 writeTiles_def writeMetadata_def tail_def)
  have l12: "length (stringBytes MAGIC @ vb @ mb) = 12"
    by (simp add: lv lm stringBytes_def MAGIC_def)
  have w1: "writeAt (concat (writeTiles s3 tileRecords)) pb 12 =
              ((stringBytes MAGIC @ vb @ mb) @ pb) @ replicate 8 0 @ tail"
    unfolding c0 using writeAt_replace[OF l12, of pb "replicate 4 0" "replicate 8 0 @ tail"] lp
    by simp
  have l16: "length ((stringBytes MAGIC @ vb @ mb) @ pb) = 16"
    using l12 lp by simp
  have w2: "file = ((stringBytes MAGIC @ vb @ mb) @ pb) @ fb @ tail"
    unfolding fileEq w1 using writeAt_replace[OF l16, of fb "replicate 8 0" tail] lf
    by simp
  have layout: "file = stringBytes MAGIC @ vb @ mb @ pb @ fb @
                  stringBytes metadataJson @ zlibSync pyramidBuffer @ concat chunks @
                  concat (filter (\<lambda>tile. length tile > 0) tileRecords)"
    using w2 by (simp add: tail_def)
  have wi: "writeIndex zlibSync (writeMetadata s1 metadataJson) sizeRecords md pyramidMaxZoom =
             Inr (writeMetadata s1 metadataJson @ [zlibSync pyramidBuffer] @ chunks,
                  int (length (zlibSync pyramidBuffer)), int (length (concat chunks)))"
    using w by (simp add: v s3 pl fl)
  have p': "writeUInt32LE (int (length (zlibSync pyramidBuffer))) = Inr pb"
    using p by (simp add: pl)
  have f': "writeBigUint64LE (int (length (concat chunks))) = Inr fb"
    using f by (simp add: fl)
  note cnt = length_concat_fives_threes[OF cs]
  from h r wi cs cnt p' f' lv lm lp lf layout show ?thesis by blast
qed

text \<open>Witness for C10: the small archive.\<close>

theorem writeIndex_lengths_are_bytes_written_witness:
  "createComTileArchive zlibStored smallMetadata smallJson smallSizeRecords smallTileRecords 1 =
     Inr smallArchive \<and>
   (\<exists>headerStream rest pyramidBuffer offsetAfterPyramid chunks
       versionBuffer metadataLengthBuffer pyramidLength fragmentLength.
      writeHeader [] (int (length smallJson)) = Inr headerStream \<and>
      writePyramidEntries
        (nat (calculateNumTiles
           (filter (\<lambda>set. zoom set \<le> 1) (tileMatrix (tileMatrixSet smallMetadata)))))
        0 smallSizeRecords
        (replicate (nat (calculateNumTiles
           (filter (\<lambda>set. zoom set \<le> 1) (tileMatrix (tileMatrixSet smallMetadata))) *
            NUM_BYTES_TILE_SIZE)) 0) 0 =
        Inr (rest, pyramidBuffer, offsetAfterPyramid) \<and>
      writeIndex zlibStored (writeMetadata headerStream smallJson) smallSizeRecords smallMetadata 1 =
        Inr (writeMetadata headerStream smallJson @ [zlibStored pyramidBuffer] @ chunks,
             int (length (zlibStored pyramidBuffer)), int (length (concat chunks))) \<and>
      list_all (\<lambda>c. length c = 5 \<or> length c = 3) chunks \<and>
      int (length (concat chunks)) =
        5 * int (length (filter (\<lambda>c. length c = 5) chunks)) +
        3 * int (length (filter (\<lambda>c. length c = 3) chunks)) \<and>
      writeUInt32LE (int (length (zlibStored pyramidBuffer))) = Inr pyramidLength \<and>
      writeBigUint64LE (int (length (concat chunks))) = Inr fragmentLength \<and>
      length versionBuffer = 4 \<and> length metadataLengthBuffer = 4 \<and>
      length pyramidLength = 4 \<and> length fragmentLength = 8 \<and>
      smallArchive = stringBytes MAGIC @ versionBuffer @ metadataLengthBuffer @
             pyramidLength @ fragmentLength @
             stringBytes smallJson @ zlibStored pyramidBuffer @ concat chunks @
             concat (filter (\<lambda>tile. length tile > 0) smallTileRecords))"
  by (rule conjI[OF small_createComTileArchive
        writeIndex_lengths_are_bytes_written[OF small_createComTileArchive]])

section \<open>The writer: padding between present tiles\<close>

text \<open>
  Claim C5 (the code differs). In the small archive the last tile of the pyramid, column 1 of
  row 1 of zoom 1, has the ordinal 4, and the only tile of zoom 2, column 2 of row 1, has the
  ordinal 11: six entries are missing between them. \<open>writeIndex\<close> starts the fragment loop
  with \<open>previousIndex\<close> the byte length of the compressed pyramid (26 here) instead of the
  ordinal 4, computes a negative padding and writes no zero entry at all: the fragment
  section is the 5-byte offset followed by the size entry of the tile.
\<close>

theorem writeIndex_padding_across_boundary:
  "calculateIndexOffsetForTile smallMatrices 1 1 1 = Inr \<lparr> offset = 12, index = 4 \<rparr> \<and>
   calculateIndexOffsetForTile smallMatrices 2 2 1 = Inr \<lparr> offset = 33, index = 11 \<rparr> \<and>
   writeIndex zlibStored [] smallSizeRecords smallMetadata 1 =
     Inr ([smallPartialIndex, [15, 0, 0, 0, 0], [9, 0, 0]], 26, 8)"
  using small_last_pyramid_index small_fragment_index small_writeIndex[of "[]"] by simp

section \<open>The reader: header bootstrap\<close>

lemma getUint32LE_nonneg: "getUint32LE buffer k = Inr v \<Longrightarrow> 0 \<le> v"
  by (auto simp: getUint32LE_def split: if_splits)

lemma nth_replace_prefix:
  assumes "length magic = 4" "4 \<le> length b" "4 \<le> i"
  shows "(magic @ drop 4 b) ! i = b ! i"
  using assms by (simp add: nth_append)

lemma getUint32LE_replace_prefix:
  assumes "length magic = 4" "4 \<le> length b" "4 \<le> k"
  shows "getUint32LE (magic @ drop 4 b) k = getUint32LE b k"
proof -
  have n: "(magic @ drop 4 b) ! nat (k + j) = b ! nat (k + j)" if "0 \<le> j" for j
    using assms that by (intro nth_replace_prefix) simp_all
  have l: "length (magic @ drop 4 b) = length b" using assms by simp
  show ?thesis
    unfolding getUint32LE_def l using n[of 0] n[of 1] n[of 2] n[of 3] by simp
qed

lemma sliceBuffer_replace_prefix:
  assumes "length magic = 4" "4 \<le> length b" "4 \<le> s"
  shows "sliceBuffer (magic @ drop 4 b) s e = sliceBuffer b s e"
proof -
  have l: "length (magic @ drop 4 b) = length b" using assms by simp
  define k where "k = nat (min s (int (length b)))"
  have k4: "4 \<le> k" using assms by (simp add: k_def)
  have d: "drop k (magic @ drop 4 b) = drop k b"
    using assms k4 by simp
  show ?thesis
    unfolding sliceBuffer_def Let_def l using assms(3) d by (simp add: k_def)
qed

lemma fetchHeader_replace_prefix:
  assumes "length magic = 4" "4 \<le> length archive" "fetchHeader archive = Inr buffer"
  shows "fetchHeader (magic @ drop 4 archive) = Inr (magic @ drop 4 buffer) \<and> 4 \<le> length buffer"
proof -
  have b: "buffer = take (nat INITIAL_CHUNK_SIZE) archive"
    using assms(2,3) by (auto simp: fetchHeader_def fetchBinaryData_def INITIAL_CHUNK_SIZE_def split: if_splits)
  have n: "nat INITIAL_CHUNK_SIZE = 4 + (nat INITIAL_CHUNK_SIZE - 4)"
    by (simp add: INITIAL_CHUNK_SIZE_def)
  have "take (nat INITIAL_CHUNK_SIZE) (magic @ drop 4 archive) =
          magic @ take (nat INITIAL_CHUNK_SIZE - 4) (drop 4 archive)"
    using assms(1) by (simp add: INITIAL_CHUNK_SIZE_def)
  also have "take (nat INITIAL_CHUNK_SIZE - 4) (drop 4 archive) = drop 4 buffer"
    unfolding b by (subst n, simp only: drop_take[symmetric]) (simp add: drop_take)
  finally have t: "take (nat INITIAL_CHUNK_SIZE) (magic @ drop 4 archive) = magic @ drop 4 buffer" .
  have ne: "archive \<noteq> []" using assms(2) by auto
  have f: "fetchHeader (magic @ drop 4 archive) = Inr (take (nat INITIAL_CHUNK_SIZE) (magic @ drop 4 archive))"
    using assms(1,2) ne by (simp add: fetchHeader_def fetchBinaryData_def INITIAL_CHUNK_SIZE_def)
  have "4 \<le> length buffer" using assms(2) by (simp add: b INITIAL_CHUNK_SIZE_def)
  with f t show ?thesis by simp
qed

lemma fetchHeader_failure:
  assumes "length magic = 4" "4 \<le> length archive" "fetchHeader archive = Inl e"
  shows "False"
  using assms by (auto simp: fetchHeader_def fetchBinaryData_def INITIAL_CHUNK_SIZE_def split: if_splits)

lemma loadHeader_ignores_magic:
  assumes m: "length magic = 4" and a: "4 \<le> length archive"
  shows "loadHeader parseMetadata (magic @ drop 4 archive) = loadHeader parseMetadata archive"
proof (cases "fetchHeader archive")
  case (Inl e)
  with fetchHeader_failure[OF m a] show ?thesis by blast
next
  case (Inr buffer)
  from fetchHeader_replace_prefix[OF m a Inr]
  have f': "fetchHeader (magic @ drop 4 archive) = Inr (magic @ drop 4 buffer)"
    and lb: "4 \<le> length buffer" by simp_all
  have g: "getUint32LE (magic @ drop 4 buffer) k = getUint32LE buffer k" if "4 \<le> k" for k
    by (rule getUint32LE_replace_prefix[OF m lb that])
  have s: "sliceBuffer (magic @ drop 4 buffer) s e = sliceBuffer buffer s e" if "4 \<le> s" for s e
    by (rule sliceBuffer_replace_prefix[OF m lb that])
  show ?thesis
  proof (cases "getUint32LE buffer 8")
    case (Inl e)
    then show ?thesis
      unfolding loadHeader_def Inr f' by (simp add: bindE_def g split: sum.splits)
  next
    case mr: (Inr metadataSize)
    have "0 \<le> metadataSize" by (rule getUint32LE_nonneg[OF mr])
    then have s2: "sliceBuffer (magic @ drop 4 buffer) (METADATA_OFFSET_INDEX + metadataSize) e =
                   sliceBuffer buffer (METADATA_OFFSET_INDEX + metadataSize) e" for e
      by (intro s) (simp add: METADATA_OFFSET_INDEX_def)
    have s1: "sliceBuffer (magic @ drop 4 buffer) METADATA_OFFSET_INDEX e =
                   sliceBuffer buffer METADATA_OFFSET_INDEX e" for e
      by (intro s) (simp add: METADATA_OFFSET_INDEX_def)
    show ?thesis
      unfolding loadHeader_def Inr f' bindE_def sum.case Let_def
      by (simp only: g[of 4, simplified] g[of 8, simplified] g[of 12, simplified]
            g[of 16, simplified] mr sum.case s1 s2)
  qed
qed

lemma loadHeader_rejects_version:
  assumes "fetchHeader archive = Inr buffer" "getUint32LE buffer 4 = Inr version" "version \<noteq> 1"
  shows "loadHeader parseMetadata archive = Inl UnsupportedVersion"
  using assms by (simp add: loadHeader_def bindE_def SUPPORTED_VERSION_def)

lemma loadHeader_accepts:
  assumes "loadHeader parseMetadata archive = Inr h"
  shows "\<exists>buf metaLen pyramidLen fragmentLen.
           fetchHeader archive = Inr buf \<and> getUint32LE buf 4 = Inr 1 \<and>
           getUint32LE buf 8 = Inr metaLen \<and> getUint32LE buf 12 = Inr pyramidLen \<and>
           getUint32LE buf 16 = Inr fragmentLen \<and>
           indexOffset h = 24 + metaLen \<and> pyramidIndexLength h = pyramidLen \<and>
           fragmentIndexLength h = fragmentLen \<and>
           dataOffset h = 24 + metaLen + pyramidLen + fragmentLen"
proof -
  from assms obtain buf where f: "fetchHeader archive = Inr buf"
    by (cases "fetchHeader archive") (simp_all add: loadHeader_def bindE_def)
  from assms f obtain version where v: "getUint32LE buf 4 = Inr version"
    by (cases "getUint32LE buf 4") (simp_all add: loadHeader_def bindE_def)
  from assms f v have v1: "version = 1"
    by (cases "version = 1") (simp_all add: loadHeader_def bindE_def SUPPORTED_VERSION_def)
  from assms f v v1 obtain metaLen where m: "getUint32LE buf 8 = Inr metaLen"
    by (cases "getUint32LE buf 8") (simp_all add: loadHeader_def bindE_def SUPPORTED_VERSION_def)
  from assms f v v1 m obtain pyramidLen where p: "getUint32LE buf 12 = Inr pyramidLen"
    by (cases "getUint32LE buf 12") (simp_all add: loadHeader_def bindE_def SUPPORTED_VERSION_def)
  from assms f v v1 m p obtain fragmentLen where g: "getUint32LE buf 16 = Inr fragmentLen"
    by (cases "getUint32LE buf 16") (simp_all add: loadHeader_def bindE_def SUPPORTED_VERSION_def)
  define idx where "idx = METADATA_OFFSET_INDEX + metaLen"
  from assms f v v1 m p g obtain md where
    md: "parseMetadata (sliceBuffer buf METADATA_OFFSET_INDEX idx) = Inr md"
    by (cases "parseMetadata (sliceBuffer buf METADATA_OFFSET_INDEX idx)")
       (simp_all add: loadHeader_def bindE_def SUPPORTED_VERSION_def Let_def idx_def)
  from assms f v v1 m p g md obtain u where
    va: "validateMetadata md ((INITIAL_CHUNK_SIZE - idx) div INDEX_ENTRY_NUM_BYTES) = Inr u"
    by (cases "validateMetadata md ((INITIAL_CHUNK_SIZE - idx) div INDEX_ENTRY_NUM_BYTES)")
       (simp_all add: loadHeader_def bindE_def SUPPORTED_VERSION_def Let_def idx_def)
  from assms f v v1 m p g md va
  have h: "h = \<lparr> indexOffset = idx, pyramidIndexLength = pyramidLen,
                 fragmentIndexLength = fragmentLen,
                 dataOffset = idx + pyramidLen + fragmentLen,
                 metadata = md,
                 partialIndex = sliceBuffer buf idx (idx + pyramidLen) \<rparr>"
    by (simp add: loadHeader_def bindE_def SUPPORTED_VERSION_def Let_def idx_def)
  show ?thesis
    using f v v1 m p g by (simp add: h idx_def METADATA_OFFSET_INDEX_def)
qed

lemma fetchHeader_whole:
  "archive \<noteq> [] \<Longrightarrow> int (length archive) \<le> INITIAL_CHUNK_SIZE \<Longrightarrow> fetchHeader archive = Inr archive"
  by (simp add: fetchHeader_def fetchBinaryData_def)

lemma small_fetchHeader: "fetchHeader smallArchive = Inr smallArchive"
  by (rule fetchHeader_whole)
     (simp_all add: smallArchive_def smallPartialIndex_def INITIAL_CHUNK_SIZE_def)

lemma small_header_fields:
  "getUint32LE smallArchive 4 = Inr 1" "getUint32LE smallArchive 8 = Inr 2"
  "getUint32LE smallArchive 12 = Inr 26" "getUint32LE smallArchive 16 = Inr 8"
  by code_simp+

lemma small_metadata_slice: "sliceBuffer smallArchive 24 26 = stringBytes smallJson"
  by code_simp

lemma small_parse: "smallParse (stringBytes smallJson) = Inr smallMetadata"
  by (simp add: smallParse_def)

lemma small_validate: "validateMetadata smallMetadata 174754 = Inr ()"
  by code_simp

lemma small_partial_slice: "sliceBuffer smallArchive 26 52 = smallPartialIndex"
  by code_simp

lemma small_loadHeader: "loadHeader smallParse smallArchive = Inr smallHeader"
  unfolding loadHeader_def small_fetchHeader bindE_def sum.case small_header_fields
  by (simp add: SUPPORTED_VERSION_def METADATA_OFFSET_INDEX_def small_metadata_slice small_parse
        INITIAL_CHUNK_SIZE_def INDEX_ENTRY_NUM_BYTES_def small_validate small_partial_slice
        smallHeader_def)

lemma small_version2:
  "fetchHeader smallArchiveVersion2 = Inr smallArchiveVersion2"
  "getUint32LE smallArchiveVersion2 4 = Inr 2"
proof -
  show "fetchHeader smallArchiveVersion2 = Inr smallArchiveVersion2"
    by (rule fetchHeader_whole)
       (simp_all add: smallArchiveVersion2_def smallArchive_def smallPartialIndex_def
          INITIAL_CHUNK_SIZE_def)
  show "getUint32LE smallArchiveVersion2 4 = Inr 2" by code_simp
qed

text \<open>
  Claim C6, amended. During header bootstrap the reader rejects an archive whose version is
  not 1; it does not examine the magic, so that replacing the first four bytes changes
  nothing; for an archive it accepts, it computes the start of the data section as
  \<open>dataOffset = 24 + metaLen + pyramidLen + fragmentLen\<close> from the lengths it parsed from
  the header, \<open>metaLen\<close> and \<open>pyramidLen\<close> being the \<open>uint32\<close> little-endian values at
  header bytes 8 and 12.
\<close>

theorem loadHeader_bootstrap:
  "(fetchHeader archive = Inr buffer \<and> getUint32LE buffer 4 = Inr version \<and> version \<noteq> 1 \<longrightarrow>
      loadHeader parseMetadata archive = Inl UnsupportedVersion) \<and>
   (length magic = 4 \<and> 4 \<le> length archive \<longrightarrow>
      loadHeader parseMetadata (magic @ drop 4 archive) = loadHeader parseMetadata archive) \<and>
   (loadHeader parseMetadata archive = Inr h \<longrightarrow>
      (\<exists>buf metaLen.
         fetchHeader archive = Inr buf \<and> getUint32LE buf 4 = Inr 1 \<and>
         getUint32LE buf 8 = Inr metaLen \<and>
         getUint32LE buf 12 = Inr (pyramidIndexLength h) \<and>
         indexOffset h = 24 + metaLen \<and>
         dataOffset h = 24 + metaLen + pyramidIndexLength h + fragmentIndexLength h))"
proof (intro conjI impI)
  assume "fetchHeader archive = Inr buffer \<and> getUint32LE buffer 4 = Inr version \<and> version \<noteq> 1"
  then show "loadHeader parseMetadata archive = Inl UnsupportedVersion"
    using loadHeader_rejects_version[of archive buffer version parseMetadata] by blast
next
  assume "length magic = 4 \<and> 4 \<le> length archive"
  then show "loadHeader parseMetadata (magic @ drop 4 archive) = loadHeader parseMetadata archive"
    using loadHeader_ignores_magic[of magic archive parseMetadata] by blast
next
  assume "loadHeader parseMetadata archive = Inr h"
  from loadHeader_accepts[OF this] obtain buf metaLen pyramidLen fragmentLen where
    f: "fetchHeader archive = Inr buf" "getUint32LE buf 4 = Inr 1"
      "getUint32LE buf 8 = Inr metaLen" "getUint32LE buf 12 = Inr pyramidLen"
    and g: "indexOffset h = 24 + metaLen" "pyramidIndexLength h = pyramidLen"
      "fragmentIndexLength h = fragmentLen"
      "dataOffset h = 24 + metaLen + pyramidLen + fragmentLen"
    by blast
  show "\<exists>buf metaLen.
         fetchHeader archive = Inr buf \<and> getUint32LE buf 4 = Inr 1 \<and>
         getUint32LE buf 8 = Inr metaLen \<and>
         getUint32LE buf 12 = Inr (pyramidIndexLength h) \<and>
         indexOffset h = 24 + metaLen \<and>
         dataOffset h = 24 + metaLen + pyramidIndexLength h + fragmentIndexLength h"
    by (rule exI[of _ buf], rule exI[of _ metaLen]) (simp add: f g)
qed

text \<open>Witness for C6: the small archive with the version 2 is rejected; the small archive is
  accepted, with or without its magic, with \<open>dataOffset = 24 + 2 + 26 + 8\<close>.\<close>

theorem loadHeader_bootstrap_witness:
  "loadHeader smallParse smallArchiveVersion2 = Inl UnsupportedVersion \<and>
   loadHeader smallParse (stringBytes ''XXXX'' @ drop 4 smallArchive) =
     loadHeader smallParse smallArchive \<and>
   loadHeader smallParse smallArchive = Inr smallHeader \<and>
   (\<exists>buf metaLen.
      fetchHeader smallArchive = Inr buf \<and> getUint32LE buf 4 = Inr 1 \<and>
      getUint32LE buf 8 = Inr metaLen \<and>
      getUint32LE buf 12 = Inr (pyramidIndexLength smallHeader) \<and>
      indexOffset smallHeader = 24 + metaLen \<and>
      dataOffset smallHeader =
        24 + metaLen + pyramidIndexLength smallHeader + fragmentIndexLength smallHeader) \<and>
   dataOffset smallHeader = 24 + 2 + 26 + 8"
proof -
  note w = loadHeader_bootstrap[of smallArchiveVersion2 smallArchiveVersion2 2 smallParse]
  from w small_version2
  have a: "loadHeader smallParse smallArchiveVersion2 = Inl UnsupportedVersion" by simp
  note w2 = loadHeader_bootstrap[of smallArchive _ _ smallParse "stringBytes ''XXXX''" smallHeader]
  have l: "length (stringBytes ''XXXX'') = 4 \<and> 4 \<le> length smallArchive"
    by (simp add: stringBytes_def smallArchive_def)
  from w2 l have b: "loadHeader smallParse (stringBytes ''XXXX'' @ drop 4 smallArchive) =
     loadHeader smallParse smallArchive" by blast
  from w2 small_loadHeader
  have c: "\<exists>buf metaLen.
      fetchHeader smallArchive = Inr buf \<and> getUint32LE buf 4 = Inr 1 \<and>
      getUint32LE buf 8 = Inr metaLen \<and>
      getUint32LE buf 12 = Inr (pyramidIndexLength smallHeader) \<and>
      indexOffset smallHeader = 24 + metaLen \<and>
      dataOffset smallHeader =
        24 + metaLen + pyramidIndexLength smallHeader + fragmentIndexLength smallHeader" by blast
  have d: "dataOffset smallHeader = 24 + 2 + 26 + 8" by (simp add: smallHeader_def)
  from a b small_loadHeader c d show ?thesis by blast
qed

text \<open>Counterexample to C6 as stated: the small archive with the magic \<open>XXXX\<close> instead of
  \<open>COMT\<close> is accepted, with the same header as the small archive.\<close>

theorem loadHeader_bad_magic_counterexample:
  "take 4 smallArchiveBadMagic = stringBytes ''XXXX'' \<and>
   stringBytes ''XXXX'' \<noteq> stringBytes MAGIC \<and>
   loadHeader smallParse smallArchiveBadMagic = Inr smallHeader"
proof -
  have l: "length (stringBytes ''XXXX'') = 4" "4 \<le> length smallArchive"
    by (simp_all add: stringBytes_def smallArchive_def)
  have "loadHeader smallParse smallArchiveBadMagic = loadHeader smallParse smallArchive"
    unfolding smallArchiveBadMagic_def by (rule loadHeader_ignores_magic[OF l])
  moreover have "take 4 smallArchiveBadMagic = stringBytes ''XXXX''"
    by (simp add: smallArchiveBadMagic_def stringBytes_def)
  moreover have "stringBytes ''XXXX'' \<noteq> stringBytes MAGIC"
    by (simp add: stringBytes_def MAGIC_def)
  ultimately show ?thesis using small_loadHeader by simp
qed

section \<open>Requests outside the limits\<close>

text \<open>What the code does in general, with one tile matrix per zoom:
  \<open>calculateIndexOffsetForTile\<close> throws exactly outside the limits of the requested zoom,
  \<open>getFragmentRangeForTile\<close> only when that zoom is fragmented as well, and \<open>getTile\<close>
  returns empty bytes when the matrix at position \<open>z\<close> of the list exists and the converted
  address is outside its limits.\<close>

lemma indexOffsetReduce_throws:
  "(\<exists>e. indexOffsetReduce ts z x y off = Inl e) \<longleftrightarrow>
   (\<exists>t \<in> set ts. zoom t = z \<and> \<not> inRange x y (tileMatrixLimits t))"
  by (induction ts arbitrary: off) (simp_all add: Let_def, blast)

lemma fragmentRangeLoop_throws:
  "(\<exists>e. fragmentRangeLoop ts z x y ml pl acc = Inl e) \<longleftrightarrow>
   (\<exists>t \<in> set ts. zoom t = z \<and> \<not> inRange x y (tileMatrixLimits t))"
  by (induction ts arbitrary: acc) (simp_all add: Let_def, blast)

lemma unique_zoom:
  assumes "distinct (map zoom tms)" "tm \<in> set tms" "t \<in> set tms" "zoom t = zoom tm"
  shows "t = tm"
proof -
  have "inj_on zoom (set tms)" using assms(1) by (simp add: distinct_map)
  from inj_onD[OF this assms(4,3,2)] show ?thesis .
qed

lemma exists_at_zoom:
  assumes "distinct (map zoom tms)" "tm \<in> set tms" "zoom tm = z"
  shows "(\<exists>t \<in> set tms. zoom t = z \<and> P t) \<longleftrightarrow> P tm"
proof
  assume "\<exists>t \<in> set tms. zoom t = z \<and> P t"
  then obtain t where t: "t \<in> set tms" "zoom t = z" "P t" by blast
  have "t = tm" using unique_zoom[OF assms(1,2) t(1)] t(2) assms(3) by simp
  with t(3) show "P tm" by simp
next
  assume "P tm"
  with assms(2,3) show "\<exists>t \<in> set tms. zoom t = z \<and> P t" by blast
qed

lemma calculateIndexOffsetForTile_throws:
  assumes "distinct (map zoom tms)" "tm \<in> set tms" "zoom tm = z"
  shows "(\<exists>e. calculateIndexOffsetForTile tms z x y = Inl e) \<longleftrightarrow>
         \<not> inRange x y (tileMatrixLimits tm)"
proof -
  have "(\<exists>e. calculateIndexOffsetForTile tms z x y = Inl e) \<longleftrightarrow>
        (\<exists>e. indexOffsetReduce (filter (\<lambda>tm. zoom tm \<le> z) tms) z x y 0 = Inl e)"
    by (cases "indexOffsetReduce (filter (\<lambda>tm. zoom tm \<le> z) tms) z x y 0")
       (simp_all add: calculateIndexOffsetForTile_def bindE_def)
  also have "\<dots> \<longleftrightarrow> (\<exists>t \<in> set tms. zoom t = z \<and> \<not> inRange x y (tileMatrixLimits t))"
    unfolding indexOffsetReduce_throws by fastforce
  also have "\<dots> \<longleftrightarrow> \<not> inRange x y (tileMatrixLimits tm)"
    by (rule exists_at_zoom[OF assms])
  finally show ?thesis .
qed

lemma getFragmentRangeForTile_throws:
  assumes "distinct (map zoom tms)" "tm \<in> set tms" "zoom tm = z"
  shows "(\<exists>e. getFragmentRangeForTile tms z x y ml pl = Inl e) \<longleftrightarrow>
         aggregationCoefficient tm \<noteq> -1 \<and> \<not> inRange x y (tileMatrixLimits tm)"
proof -
  have "(\<exists>e. getFragmentRangeForTile tms z x y ml pl = Inl e) \<longleftrightarrow>
        (\<exists>t \<in> set tms. zoom t = z \<and> (aggregationCoefficient t \<noteq> -1 \<and>
                        \<not> inRange x y (tileMatrixLimits t)))"
    unfolding getFragmentRangeForTile_def Let_def fragmentRangeLoop_throws by fastforce
  also have "\<dots> \<longleftrightarrow> aggregationCoefficient tm \<noteq> -1 \<and> \<not> inRange x y (tileMatrixLimits tm)"
    by (rule exists_at_zoom[OF assms])
  finally show ?thesis .
qed

lemma getIndexEntry_outside:
  assumes "header this = Some h"
    and "arrayGet (tileMatrix (tileMatrixSet (metadata h))) z = Some tm"
    and "\<not> inRange x (shiftLeft1 z - y - 1) (tileMatrixLimits tm)"
  shows "getIndexEntry parseMetadata unzlibSync archive this x y z = Inr (None, this)"
  using assms by (auto simp: getIndexEntry_def bindE_def Let_def inRange_def)

lemma getTile_outside:
  assumes "header this = Some h"
    and "arrayGet (tileMatrix (tileMatrixSet (metadata h))) z = Some tm"
    and "\<not> inRange x (shiftLeft1 z - y - 1) (tileMatrixLimits tm)"
  shows "getTile parseMetadata unzlibSync gunzipSync archive this x y z = Inr ([], this)"
  by (simp add: getTile_def getIndexEntry_outside[OF assms] bindE_def)

lemma getTile_outside_lazy:
  assumes "header this = None" "loadHeader parseMetadata archive = Inr h" "initIndex h = Inr ic"
    and "arrayGet (tileMatrix (tileMatrixSet (metadata h))) z = Some tm"
    and "\<not> inRange x (shiftLeft1 z - y - 1) (tileMatrixLimits tm)"
  shows "getTile parseMetadata unzlibSync gunzipSync archive this x y z =
           Inr ([], \<lparr> header = Some h, indexCache = Some ic \<rparr>)"
  using assms by (auto simp: getTile_def getIndexEntry_def bindE_def Let_def inRange_def)

lemma small_initIndex: "initIndex smallHeader = Inr smallCache"
  by (simp add: initIndex_def smallHeader_def small_ComtIndex_new bindE_def smallCache_def)

text \<open>
  Claim C8 (the code differs). \<open>calculateIndexOffsetForTile\<close> throws for the tile \<open>(5, 5)\<close>
  of the pyramid zoom 0 of the small archive, which lies outside the limits \<open>{0, 0, 0, 0}\<close>;
  \<open>getFragmentRangeForTile\<close> filters the pyramid zooms out before its range test and returns
  the empty range for the same request instead of throwing. \<open>getTile\<close> looks the limits up
  at position \<open>z\<close> of the list of tile matrices, not at the matrix whose \<open>zoom\<close> is \<open>z\<close>: in
  scenario (b), whose list holds zoom 3 only, the request \<open>x = 9\<close>, \<open>y = 7\<close>, \<open>z = 3\<close> is
  converted to the row \<open>8 - 7 - 1 = 0\<close>, lies outside the limits \<open>{0, 0, 7, 7}\<close> of zoom 3,
  and ends in a \<open>TypeError\<close> instead of empty bytes.
\<close>

theorem outOfRange_requests_mishandled:
  "zoom smallZoom0 = 0 \<and> aggregationCoefficient smallZoom0 = -1 \<and>
   \<not> inRange 5 5 (tileMatrixLimits smallZoom0) \<and>
   calculateIndexOffsetForTile smallMatrices 0 5 5 = Inl OutOfRange \<and>
   getFragmentRangeForTile smallMatrices 0 5 5 26 26 =
     Inr \<lparr> fragmentIndex = 0, startOffset = 0, endOffset = 0 \<rparr> \<and>
   tileMatrix (tileMatrixSet (metadata scenarioBHeader)) = [scenarioBZoom3] \<and>
   zoom scenarioBZoom3 = 3 \<and>
   \<not> inRange 9 (shiftLeft1 3 - 7 - 1) (tileMatrixLimits scenarioBZoom3) \<and>
   getTile parseMetadata unzlibSync gunzipSync archive scenarioBReader 9 7 3 = Inl TypeError"
proof -
  have a: "zoom smallZoom0 = 0" "aggregationCoefficient smallZoom0 = -1"
    "\<not> inRange 5 5 (tileMatrixLimits smallZoom0)"
    by (simp_all add: smallZoom0_def inRange_def)
  have b: "calculateIndexOffsetForTile smallMatrices 0 5 5 = Inl OutOfRange"
    by code_simp
  have c: "getFragmentRangeForTile smallMatrices 0 5 5 26 26 =
             Inr \<lparr> fragmentIndex = 0, startOffset = 0, endOffset = 0 \<rparr>"
    by code_simp
  have d: "tileMatrix (tileMatrixSet (metadata scenarioBHeader)) = [scenarioBZoom3]"
    "zoom scenarioBZoom3 = 3"
    by (simp_all add: scenarioBHeader_def scenarioBMetadata_def scenarioBZoom3_def)
  have e: "\<not> inRange 9 (shiftLeft1 3 - 7 - 1) (tileMatrixLimits scenarioBZoom3)"
    by (simp add: inRange_def scenarioBZoom3_def shiftLeft1_def toInt32_def)
  have g: "arrayGet [scenarioBZoom3] 3 = None" by (simp add: arrayGet_def)
  have f: "getTile parseMetadata unzlibSync gunzipSync archive scenarioBReader 9 7 3 =
             Inl TypeError"
    by (simp add: getTile_def getIndexEntry_def scenarioBReader_def bindE_def Let_def d g)
  from a b c d e f show ?thesis by simp
qed

section \<open>The reader: pyramid section or index fragment\<close>

lemma small_fragment_range:
  "getFragmentRangeForTile smallMatrices 2 2 1 26 26 =
     Inr \<lparr> fragmentIndex = 0, startOffset = 52, endOffset = 105 \<rparr>"
  by code_simp

lemma small_unzlib: "unzlibStored smallPartialIndex = Inr smallPyramidBuffer"
  by code_simp

lemma small_pyramid_read: "getIndexEntryPyramidSection 11 smallPyramidBuffer = Inl RangeError"
  by code_simp

text \<open>
  Claim C7 (the code differs). In the small archive the pyramid ends at zoom 1 and zoom 2 is
  fragmented, so the tile in column 2 of row 1 of zoom 2 is to be resolved through its index
  fragment. \<open>IndexCache.get\<close> tests \<open>z < 8\<close> and the tile's ordinal against the byte length of
  the compressed pyramid instead: \<open>11 \<le> 26 - 3\<close>, so it reads entry 11 of the 5-entry
  pyramid buffer, and the read fails.
\<close>

theorem IndexCache_get_fragment_zoom_reads_pyramid:
  "map zoom smallMatrices = [0, 1, 2] \<and>
   map aggregationCoefficient smallMatrices = [-1, -1, 6] \<and>
   readsPyramidSection smallCache 2 11 \<and>
   IndexCache_get unzlibStored smallCache 2 2 1 = Inl RangeError"
proof -
  have a: "map zoom smallMatrices = [0, 1, 2]"
    "map aggregationCoefficient smallMatrices = [-1, -1, 6]"
    by (simp_all add: smallMatrices_def smallZoom0_def smallZoom1_def smallZoom2_def)
  have c: "readsPyramidSection smallCache 2 11"
    by (simp add: readsPyramidSection_def smallCache_def smallPartialIndex_def
          INDEX_ENTRY_NUM_BYTES_def)
  have m: "tileMatrix (tileMatrixSet (cacheMetadata smallCache)) = smallMatrices"
    "cacheIndexOffset smallCache = 26" "cachePyramidIndexLength smallCache = 26"
    "cachePartialIndex smallCache = smallPartialIndex"
    by (simp_all add: smallCache_def smallMetadata_def)
  have d: "IndexCache_get unzlibStored smallCache 2 2 1 = Inl RangeError"
    unfolding IndexCache_get_def Let_def m small_fragment_index small_fragment_range bindE_def
      sum.case
    by (simp add: c small_unzlib small_pyramid_read m)
  from a c d show ?thesis by simp
qed

section \<open>The reader: decoding an index fragment\<close>

lemma default_tileMatrix: "tileMatrix (tileMatrixSet defaultMetadata) = defaultMatrices"
  by (simp add: defaultMetadata_def)

lemma default_first_index:
  "calculateIndexOffsetForTile defaultMatrices 8 0 0 = Inr \<lparr> offset = 24, index = 8 \<rparr>"
  by code_simp

lemma default_second_index:
  "calculateIndexOffsetForTile defaultMatrices 8 1 0 = Inr \<lparr> offset = 27, index = 9 \<rparr>"
  by code_simp

lemma default_fragment_range:
  "getFragmentRangeForTile defaultMatrices 8 0 0 26 35 = Inr defaultFragmentRange"
  "getFragmentRangeForTile defaultMatrices 8 1 0 26 35 = Inr defaultFragmentRange"
  by code_simp+

lemma default_fragment_decode:
  "getIndexEntryFragmentSection 0 (defaultFragmentSection @ [7]) =
     Inr \<lparr> entryOffset = 8, entrySize = 10 \<rparr>"
  "getIndexEntryFragmentSection 1 (defaultFragmentSection @ [7]) =
     Inr \<lparr> entryOffset = 18, entrySize = 20 \<rparr>"
  by code_simp+

lemma default_cache_fields:
  "tileMatrix (tileMatrixSet (cacheMetadata defaultCacheFetched)) = defaultMatrices"
  "cacheIndexOffset defaultCacheFetched = 26" "cachePyramidIndexLength defaultCacheFetched = 35"
  "map_of (fragmentedIndex defaultCacheFetched) 61 =
     Some (defaultFragmentRange, defaultFragmentSection @ [7])"
  "tileMatrix (tileMatrixSet (cacheMetadata defaultCache)) = defaultMatrices"
  "cacheIndexOffset defaultCache = 26" "cachePyramidIndexLength defaultCache = 35"
  "map_of (fragmentedIndex defaultCache) 61 = None"
  by (simp_all add: defaultCacheFetched_def defaultCache_def defaultMetadata_def)

lemma not_reads_pyramid_at_8: "\<not> readsPyramidSection cache 8 idx"
  by (simp add: readsPyramidSection_def)

lemma default_get_fetched:
  "IndexCache_get unzlibSync defaultCacheFetched 8 0 0 =
     Inr (Some \<lparr> entryOffset = 8, entrySize = 10 \<rparr>)"
  "IndexCache_get unzlibSync defaultCacheFetched 8 1 0 =
     Inr (Some \<lparr> entryOffset = 8, entrySize = 10 \<rparr>)"
  unfolding IndexCache_get_def Let_def default_cache_fields default_first_index
    default_second_index default_fragment_range bindE_def sum.case
  by (simp_all add: not_reads_pyramid_at_8 defaultFragmentRange_def default_cache_fields
        default_fragment_decode)

lemma default_get_empty:
  "IndexCache_get unzlibSync defaultCache 8 1 0 = Inr None"
  unfolding IndexCache_get_def Let_def default_cache_fields default_first_index
    default_second_index default_fragment_range bindE_def sum.case
  by (simp_all add: not_reads_pyramid_at_8 defaultFragmentRange_def default_cache_fields)

text \<open>
  Claim C2 (the code differs). The tiles \<open>(0, 0)\<close> and \<open>(1, 0)\<close> of zoom 8 of the default
  archive have the ordinals 8 and 9 and share the fragment whose first tile has the ordinal
  8. With the fragment in the cache, \<open>IndexCache.get\<close> decodes both with
  \<open>relativeFragmentOffset = 0\<close> and returns the entry of the first tile, offset 8 and size 10,
  for both; the entry at the local index \<open>9 - 8 = 1\<close>, offset 18 and size 20, is never read.
\<close>

theorem IndexCache_get_same_entry_for_distinct_tiles:
  "calculateIndexOffsetForTile defaultMatrices 8 0 0 = Inr \<lparr> offset = 24, index = 8 \<rparr> \<and>
   calculateIndexOffsetForTile defaultMatrices 8 1 0 = Inr \<lparr> offset = 27, index = 9 \<rparr> \<and>
   IndexCache_get unzlibStored defaultCacheFetched 8 0 0 =
     Inr (Some \<lparr> entryOffset = 8, entrySize = 10 \<rparr>) \<and>
   IndexCache_get unzlibStored defaultCacheFetched 8 1 0 =
     Inr (Some \<lparr> entryOffset = 8, entrySize = 10 \<rparr>) \<and>
   getIndexEntryFragmentSection (9 - 8) (defaultFragmentSection @ [7]) =
     Inr \<lparr> entryOffset = 18, entrySize = 20 \<rparr>"
  using default_first_index default_second_index default_get_fetched[of unzlibStored]
    default_fragment_decode(2)
  by simp

section \<open>Writer and reader together\<close>

lemma default_ComtIndex_new: "ComtIndex_new defaultMetadata = Inr (tileMatrixSet defaultMetadata)"
  by code_simp

lemma default_numTiles:
  "calculateNumTiles (filter (\<lambda>set. zoom set \<le> 7) defaultMatrices) = 8"
  by code_simp

lemma default_alloc: "Buffer_alloc (8 * NUM_BYTES_TILE_SIZE) = Inr (replicate 24 0)"
  by (simp add: Buffer_alloc_def NUM_BYTES_TILE_SIZE_def)

lemma default_pyramid_loop:
  "writePyramidEntries 8 0 defaultSizeRecords (replicate 24 0) 0 =
     Inr ([defaultFirstTile, defaultSecondTile], defaultPyramidBuffer, 8)"
  by code_simp

lemma default_zlib: "zlibStored defaultPyramidBuffer = defaultPartialIndex"
  by code_simp

lemma default_length_partial: "int (length defaultPartialIndex) = 35"
  by (simp add: defaultPartialIndex_def defaultPyramidBuffer_def)

lemma default_first_entry:
  "writeFragmentEntry defaultMatrices
     \<lparr> outStream = out, dataSectionOffset = 8,
       previousFragmentIndex = Some (-1), previousIndex = 35, indexFragmentLength = 0 \<rparr>
     defaultFirstTile =
   Inr \<lparr> outStream = out @ [[8, 0, 0, 0, 0], [10, 0, 0]],
         dataSectionOffset = 18, previousFragmentIndex = Some 0, previousIndex = 8,
         indexFragmentLength = 8 \<rparr>"
proof -
  have v: "validateTileSize 10 = Inr ()" by (simp add: validateTileSize_def MAX_TILE_SIZE_def)
  have g: "greaterThan (Some 0) (Some (- 1))" by (simp add: greaterThan_def)
  have p: "toBytesLE 8 5 = Inr [8, 0, 0, 0, 0]" by code_simp
  have e: "toBytesLE 10 3 = Inr [10, 0, 0]" by code_simp
  show ?thesis
    by (simp add: writeFragmentEntry_def defaultFirstTile_def bindE_def Let_def v g p e
          default_first_index NUM_BYTES_ABSOLUTE_OFFSET_def NUM_BYTES_TILE_SIZE_def)
qed

lemma default_second_entry:
  "writeFragmentEntry defaultMatrices
     \<lparr> outStream = out, dataSectionOffset = 18,
       previousFragmentIndex = Some 0, previousIndex = 8, indexFragmentLength = 8 \<rparr>
     defaultSecondTile =
   Inr \<lparr> outStream = out @ [[20, 0, 0]],
         dataSectionOffset = 38, previousFragmentIndex = Some 0, previousIndex = 9,
         indexFragmentLength = 11 \<rparr>"
proof -
  have v: "validateTileSize 20 = Inr ()" by (simp add: validateTileSize_def MAX_TILE_SIZE_def)
  have g: "\<not> greaterThan (Some 0) (Some 0)" by (simp add: greaterThan_def)
  have e: "toBytesLE 20 3 = Inr [20, 0, 0]" by code_simp
  show ?thesis
    by (simp add: writeFragmentEntry_def defaultSecondTile_def bindE_def Let_def v g e
          default_second_index NUM_BYTES_TILE_SIZE_def)
qed

lemma default_writeIndex:
  "writeIndex zlibStored out defaultSizeRecords defaultMetadata 7 =
     Inr (out @ [defaultPartialIndex] @ [[8, 0, 0, 0, 0], [10, 0, 0], [20, 0, 0]], 35, 11)"
proof -
  have n8: "nat (8::int) = 8" by simp
  show ?thesis
    unfolding writeIndex_def Let_def default_ComtIndex_new default_tileMatrix default_numTiles
      default_alloc n8 bindE_def sum.case default_pyramid_loop prod.case default_zlib
      default_length_partial writeFragmentEntries.simps default_first_entry default_second_entry
    by simp
qed

lemma default_patch:
  "writeUInt32LE 35 = Inr [35, 0, 0, 0]" "writeBigUint64LE 11 = Inr [11, 0, 0, 0, 0, 0, 0, 0]"
  by code_simp+

lemma default_file:
  "writeAt (writeAt (concat (writeTiles
      (writeMetadata smallHeaderStream smallJson @ [defaultPartialIndex] @
         [[8, 0, 0, 0, 0], [10, 0, 0], [20, 0, 0]]) defaultTileRecords)) [35, 0, 0, 0] 12)
      [11, 0, 0, 0, 0, 0, 0, 0] 16 = defaultArchive"
  by code_simp

lemma default_createComTileArchive:
  "createComTileArchive zlibStored defaultMetadata smallJson defaultSizeRecords
     defaultTileRecords 7 = Inr defaultArchive"
  unfolding createComTileArchive_def Let_def small_writeHeader bindE_def sum.case
    default_writeIndex prod.case fst_conv snd_conv default_patch default_file
  by simp

lemma default_fetchHeader: "fetchHeader defaultArchive = Inr defaultArchive"
  by (rule fetchHeader_whole)
     (simp_all add: defaultArchive_def defaultPartialIndex_def defaultPyramidBuffer_def
        defaultFragmentSection_def defaultFirstPayload_def defaultSecondPayload_def
        INITIAL_CHUNK_SIZE_def)

lemma default_header_fields:
  "getUint32LE defaultArchive 4 = Inr 1" "getUint32LE defaultArchive 8 = Inr 2"
  "getUint32LE defaultArchive 12 = Inr 35" "getUint32LE defaultArchive 16 = Inr 11"
  by code_simp+

lemma default_metadata_slice: "sliceBuffer defaultArchive 24 26 = stringBytes smallJson"
  by code_simp

lemma default_parse: "defaultParse (stringBytes smallJson) = Inr defaultMetadata"
  by (simp add: defaultParse_def)

lemma default_validate: "validateMetadata defaultMetadata 174754 = Inr ()"
  by code_simp

lemma default_partial_slice: "sliceBuffer defaultArchive 26 61 = defaultPartialIndex"
  by code_simp

lemma default_loadHeader: "loadHeader defaultParse defaultArchive = Inr defaultHeader"
  unfolding loadHeader_def default_fetchHeader bindE_def sum.case default_header_fields
  by (simp add: SUPPORTED_VERSION_def METADATA_OFFSET_INDEX_def default_metadata_slice
        default_parse INITIAL_CHUNK_SIZE_def INDEX_ENTRY_NUM_BYTES_def default_validate
        default_partial_slice defaultHeader_def)

lemma default_initIndex: "initIndex defaultHeader = Inr defaultCache"
  by (simp add: initIndex_def defaultHeader_def default_ComtIndex_new bindE_def defaultCache_def)

lemma default_fetch_fragment:
  "fetchBinaryData defaultArchive 61 72 = Inr (defaultFragmentSection @ [7])"
  by code_simp

lemma default_payload_position:
  "sliceBuffer defaultArchive (72 + 18) (72 + 18 + 20) = defaultSecondPayload"
  "sliceBuffer defaultArchive (72 + 8) (72 + 8 + 10) = defaultFirstPayload"
  by code_simp+

lemma default_fetchIndexEntry:
  "fetchIndexEntry unzlibStored defaultArchive defaultHeader defaultCache 8 1 0 =
     Inr (Some \<lparr> entryOffset = 8, entrySize = 10 \<rparr>, defaultCacheFetched)"
proof -
  have h: "tileMatrix (tileMatrixSet (metadata defaultHeader)) = defaultMatrices"
    "indexOffset defaultHeader = 26" "pyramidIndexLength defaultHeader = 35"
    by (simp_all add: defaultHeader_def defaultMetadata_def)
  have r: "startOffset defaultFragmentRange = 61" "endOffset defaultFragmentRange = 72"
    by (simp_all add: defaultFragmentRange_def)
  have s: "setIndexFragment defaultCache defaultFragmentRange (defaultFragmentSection @ [7]) =
             defaultCacheFetched"
    by (simp add: setIndexFragment_def defaultCacheFetched_def defaultFragmentRange_def
          defaultCache_def)
  show ?thesis
    unfolding fetchIndexEntry_def h default_fragment_range bindE_def sum.case r
      default_fetch_fragment Let_def s default_get_fetched
    by simp
qed

lemma default_getIndexEntry:
  "getIndexEntry defaultParse unzlibStored defaultArchive
     \<lparr> header = None, indexCache = None \<rparr> 1 255 8 =
   Inr (Some (\<lparr> entryOffset = 8, entrySize = 10 \<rparr>, 80),
        \<lparr> header = Some defaultHeader, indexCache = Some defaultCacheFetched \<rparr>)"
proof -
  have y: "shiftLeft1 8 - 255 - 1 = 0" by (simp add: shiftLeft1_def toInt32_def)
  have h: "tileMatrix (tileMatrixSet (metadata defaultHeader)) = defaultMatrices"
    "dataOffset defaultHeader = 72"
    by (simp_all add: defaultHeader_def defaultMetadata_def)
  have a: "arrayGet defaultMatrices 8 = Some defaultZoom8"
    by (simp add: arrayGet_def defaultMatrices_def)
  have l: "tileMatrixLimits defaultZoom8 =
             \<lparr> minTileCol = 0, minTileRow = 0, maxTileCol = 1, maxTileRow = 0 \<rparr>"
    by (simp add: defaultZoom8_def)
  show ?thesis
    unfolding getIndexEntry_def
    by (simp add: default_loadHeader default_initIndex bindE_def Let_def y h a l
          default_get_empty default_fetchIndexEntry)
qed

text \<open>
  Claim C1 (the code differs). The converter writes the default archive; when it comes to the
  tile \<open>(1, 0)\<close> of zoom 8 its \<open>dataSectionOffset\<close> is 18 (8 after the pyramid, plus the 10
  bytes of the tile before), and the payload of the tile lies at byte \<open>72 + 18\<close> of the file.
  The reader, asked for that tile (\<open>x = 1\<close>, \<open>y = 255\<close> in the XYZ scheme), loads the header,
  fetches the fragment and resolves the tile to the offset 8 and the size 10, that is to
  byte \<open>72 + 8\<close>, where the payload of the tile \<open>(0, 0)\<close> lies.
\<close>

theorem reader_offset_differs_from_producer_offset:
  "createComTileArchive zlibStored defaultMetadata smallJson defaultSizeRecords
     defaultTileRecords 7 = Inr defaultArchive \<and>
   writePyramidEntries 8 0 defaultSizeRecords (replicate 24 0) 0 =
     Inr ([defaultFirstTile, defaultSecondTile], defaultPyramidBuffer, 8) \<and>
   writeFragmentEntry defaultMatrices
     \<lparr> outStream = [], dataSectionOffset = 8,
       previousFragmentIndex = Some (-1), previousIndex = 35, indexFragmentLength = 0 \<rparr>
     defaultFirstTile =
     Inr \<lparr> outStream = [[8, 0, 0, 0, 0], [10, 0, 0]],
           dataSectionOffset = 18, previousFragmentIndex = Some 0, previousIndex = 8,
           indexFragmentLength = 8 \<rparr> \<and>
   sliceBuffer defaultArchive (72 + 18) (72 + 18 + 20) = defaultSecondPayload \<and>
   sliceBuffer defaultArchive (72 + 8) (72 + 8 + 10) = defaultFirstPayload \<and>
   getIndexEntry defaultParse unzlibStored defaultArchive
     \<lparr> header = None, indexCache = None \<rparr> 1 255 8 =
     Inr (Some (\<lparr> entryOffset = 8, entrySize = 10 \<rparr>, 80),
          \<lparr> header = Some defaultHeader, indexCache = Some defaultCacheFetched \<rparr>)"
  using default_createComTileArchive default_pyramid_loop default_first_entry[of "[]"]
    default_payload_position default_getIndexEntry
  by simp

end
